theory Spec2Isabelle
  imports Complex_Main
begin

section \<open>JavaScript values of \<open>cth-analysis-module.js\<close>\<close>

text \<open>
  The module expects JavaScript numbers and the two missing-value markers \<open>undefined\<close>
  and \<open>null\<close>, and it tests every value it is given with \<open>typeof\<close> and \<open>isNaN\<close>, so
  a year or an indicator slot can hold any value. A finite number is a real:
  floating-point rounding and the two infinities are outside this model. \<open>NaN\<close> is a
  value of its own. A boolean is \<open>Bool\<close>. Every other value, a string or an object, is
  \<open>Other c t\<close>: \<open>c\<close> is the number that the language converts the value to (\<open>None\<close>
  for \<open>NaN\<close>), and \<open>t\<close> is a text that tells the value apart from others. So the string
  \<open>'abc'\<close> is \<open>Other None ''abc''\<close> and the string \<open>'1000'\<close> is
  \<open>Other (Some 1000) ''1000''\<close>. A property that an object does not have reads as
  \<open>undefined\<close>, so an object with indicator-named properties is a total function into
  \<open>jsval\<close>.
\<close>

datatype jsval = Undefined | Null | NaN | Number real | Bool bool | Other "real option" string

text \<open>\<open>typeof v === 'number' && !isNaN(v)\<close>\<close>

fun valid_number :: "jsval \<Rightarrow> bool" where
  "valid_number (Number r) = True"
| "valid_number _ = False"

text \<open>\<open>v === undefined || v === null\<close>\<close>

fun missing :: "jsval \<Rightarrow> bool" where
  "missing Undefined = True"
| "missing Null = True"
| "missing _ = False"

text \<open>
  \<open>ToNumber\<close> of the language: \<open>undefined\<close> becomes \<open>NaN\<close> (here \<open>None\<close>), \<open>null\<close>
  becomes \<open>0\<close>, \<open>true\<close> becomes \<open>1\<close> and \<open>false\<close> becomes \<open>0\<close>; a string or an
  object becomes the number it carries.
\<close>

fun ToNumber :: "jsval \<Rightarrow> real option" where
  "ToNumber Undefined = None"
| "ToNumber Null = Some 0"
| "ToNumber NaN = None"
| "ToNumber (Number r) = Some r"
| "ToNumber (Bool b) = Some (if b then 1 else 0)"
| "ToNumber (Other c t) = c"

fun of_number :: "real option \<Rightarrow> jsval" where
  "of_number None = NaN"
| "of_number (Some r) = Number r"

definition js_arith :: "(real \<Rightarrow> real \<Rightarrow> real) \<Rightarrow> jsval \<Rightarrow> jsval \<Rightarrow> jsval" where
  "js_arith f a b =
     (case ToNumber a of
        None \<Rightarrow> NaN
      | Some x \<Rightarrow> (case ToNumber b of None \<Rightarrow> NaN | Some y \<Rightarrow> Number (f x y)))"

text \<open>
  \<open>a + b\<close> adds the two numbers unless an operand is a string or an object: then the
  language joins the texts of the two operands. This model has no text of a number, so
  it does not compute the joined text and gives \<open>NaN\<close> there. The module applies \<open>+\<close>
  to the two years and, in step 3, to two indicator values. Step 3 never gets to its
  sum, as step 1 leaves nothing missing; and the years are valid numbers whenever the
  steps run from \<open>analyzeEventCTH\<close>, so a year that joins texts can only come from a
  direct call of \<open>completeAndInferHistoricalData\<close>.
\<close>

fun joins_text :: "jsval \<Rightarrow> bool" where
  "joins_text (Other c t) = True"
| "joins_text _ = False"

definition js_add :: "jsval \<Rightarrow> jsval \<Rightarrow> jsval" where
  "js_add a b = (if joins_text a \<or> joins_text b then NaN else js_arith (\<lambda>x y. x + y) a b)"

definition js_sub :: "jsval \<Rightarrow> jsval \<Rightarrow> jsval" where
  "js_sub = js_arith (\<lambda>x y. x - y)"

text \<open>
  Division of two values. The only divisions the module performs on unvalidated values
  have the literal divisor \<open>2\<close>; a zero divisor (an infinity or \<open>NaN\<close> in the language)
  does not occur there and is mapped to \<open>NaN\<close>.
\<close>

definition js_div :: "jsval \<Rightarrow> jsval \<Rightarrow> jsval" where
  "js_div a b =
     (case ToNumber a of
        None \<Rightarrow> NaN
      | Some x \<Rightarrow> (case ToNumber b of
                     None \<Rightarrow> NaN
                   | Some y \<Rightarrow> if y = 0 then NaN else Number (x / y)))"

text \<open>\<open>Math.floor\<close>\<close>

definition js_floor :: "jsval \<Rightarrow> jsval" where
  "js_floor a = (case ToNumber a of None \<Rightarrow> NaN | Some x \<Rightarrow> Number (of_int \<lfloor>x\<rfloor>))"

text \<open>
  The comparisons \<open>a >= b\<close>, \<open>a <= b\<close> and \<open>a > b\<close> of two values of which one at
  least is a number, as in every comparison of the module: both sides are converted,
  and the result is false as soon as one side is \<open>NaN\<close>.
\<close>

definition js_ge :: "jsval \<Rightarrow> jsval \<Rightarrow> bool" where
  "js_ge a b =
     (case ToNumber a of
        None \<Rightarrow> False
      | Some x \<Rightarrow> (case ToNumber b of None \<Rightarrow> False | Some y \<Rightarrow> x \<ge> y))"

definition js_le :: "jsval \<Rightarrow> jsval \<Rightarrow> bool" where
  "js_le a b =
     (case ToNumber a of
        None \<Rightarrow> False
      | Some x \<Rightarrow> (case ToNumber b of None \<Rightarrow> False | Some y \<Rightarrow> x \<le> y))"

definition js_gt :: "jsval \<Rightarrow> jsval \<Rightarrow> bool" where
  "js_gt a b =
     (case ToNumber a of
        None \<Rightarrow> False
      | Some x \<Rightarrow> (case ToNumber b of None \<Rightarrow> False | Some y \<Rightarrow> x > y))"

text \<open>
  An argument that should be an object: the callers test \<open>!x || typeof x !== 'object'\<close>.
  \<open>ArgPrimitive\<close> stands for every value that is neither nullish nor an object.
\<close>

datatype 'a jsarg = ArgUndefined | ArgNull | ArgPrimitive | ArgObject 'a

fun not_an_object :: "'a jsarg \<Rightarrow> bool" where
  "not_an_object (ArgObject x) = False"
| "not_an_object _ = True"

section \<open>Configuration and reference data\<close>

datatype indicator =
    gdpPerCapita | giniIndex | politicalEventsCount | averageIncome | literacyRate
  | lifeExpectancy | birthRate | populationDensity | urbanizationRate

type_synonym indmap = "indicator \<Rightarrow> jsval"

record weights =
  w_e :: real
  w_s :: real
  w_a :: real
  w_p :: real

definition DEFAULT_CTH_WEIGHTS :: weights where
  "DEFAULT_CTH_WEIGHTS = \<lparr>w_e = 0.4, w_s = 0.3, w_a = 0.15, w_p = 0.15\<rparr>"

record limits =
  lim_min :: real
  lim_max :: real

fun INDICATOR_LIMITS :: "indicator \<Rightarrow> limits" where
  "INDICATOR_LIMITS gdpPerCapita = \<lparr>lim_min = 500, lim_max = 30000\<rparr>"
| "INDICATOR_LIMITS giniIndex = \<lparr>lim_min = 0.2, lim_max = 0.7\<rparr>"
| "INDICATOR_LIMITS politicalEventsCount = \<lparr>lim_min = 0, lim_max = 15\<rparr>"
| "INDICATOR_LIMITS averageIncome = \<lparr>lim_min = 100, lim_max = 15000\<rparr>"
| "INDICATOR_LIMITS literacyRate = \<lparr>lim_min = 0.05, lim_max = 1\<rparr>"
| "INDICATOR_LIMITS lifeExpectancy = \<lparr>lim_min = 25, lim_max = 85\<rparr>"
| "INDICATOR_LIMITS birthRate = \<lparr>lim_min = 0.005, lim_max = 0.06\<rparr>"
| "INDICATOR_LIMITS populationDensity = \<lparr>lim_min = 1, lim_max = 2000\<rparr>"
| "INDICATOR_LIMITS urbanizationRate = \<lparr>lim_min = 0.05, lim_max = 1\<rparr>"

text \<open>
  An object literal that gives the nine indicators in the order of the source:
  gdpPerCapita, giniIndex, politicalEventsCount, averageIncome, literacyRate,
  lifeExpectancy, birthRate, populationDensity, urbanizationRate.
\<close>

fun indicator_object ::
  "real \<Rightarrow> real \<Rightarrow> real \<Rightarrow> real \<Rightarrow> real \<Rightarrow> real \<Rightarrow> real \<Rightarrow> real \<Rightarrow> real \<Rightarrow> indmap" where
  "indicator_object g gi pe ai lr le br pd ur gdpPerCapita = Number g"
| "indicator_object g gi pe ai lr le br pd ur giniIndex = Number gi"
| "indicator_object g gi pe ai lr le br pd ur politicalEventsCount = Number pe"
| "indicator_object g gi pe ai lr le br pd ur averageIncome = Number ai"
| "indicator_object g gi pe ai lr le br pd ur literacyRate = Number lr"
| "indicator_object g gi pe ai lr le br pd ur lifeExpectancy = Number le"
| "indicator_object g gi pe ai lr le br pd ur birthRate = Number br"
| "indicator_object g gi pe ai lr le br pd ur populationDensity = Number pd"
| "indicator_object g gi pe ai lr le br pd ur urbanizationRate = Number ur"

record epoch =
  startYear :: real
  endYear :: real
  epoch_indicators :: indmap

text \<open>
  The table is an object with string keys; \<open>for (const key in ...)\<close> visits them in
  insertion order, so it is an association list.
\<close>

definition EPOCH_DATA_REFERENCE :: "(string \<times> epoch) list" where
  "EPOCH_DATA_REFERENCE =
    [(''antiquity'',
        \<lparr>startYear = -3000, endYear = 500,
         epoch_indicators = indicator_object 700 0.6 5 100 0.1 30 0.04 5 0.1\<rparr>),
     (''middleAges'',
        \<lparr>startYear = 501, endYear = 1500,
         epoch_indicators = indicator_object 900 0.55 7 200 0.15 35 0.035 10 0.15\<rparr>),
     (''earlyModern'',
        \<lparr>startYear = 1501, endYear = 1800,
         epoch_indicators = indicator_object 1500 0.5 8 300 0.25 40 0.03 20 0.25\<rparr>),
     (''industrialRevolution'',
        \<lparr>startYear = 1801, endYear = 1900,
         epoch_indicators = indicator_object 3000 0.48 10 600 0.4 45 0.025 50 0.4\<rparr>),
     (''20thCenturyEarly'',
        \<lparr>startYear = 1901, endYear = 1950,
         epoch_indicators = indicator_object 7000 0.45 12 1500 0.7 55 0.02 100 0.6\<rparr>),
     (''20thCenturyLate'',
        \<lparr>startYear = 1951, endYear = 2000,
         epoch_indicators = indicator_object 15000 0.4 10 4000 0.85 70 0.015 200 0.75\<rparr>),
     (''contemporary'',
        \<lparr>startYear = 2001, endYear = 2025,
         epoch_indicators = indicator_object 25000 0.35 8 8000 0.95 78 0.01 300 0.85\<rparr>)]"

section \<open>Helper functions\<close>

text \<open>
  \<open>normalizeIndicator(value, min, max)\<close>: \<open>0\<close> for a missing or invalid value; otherwise
  the value is clamped, and rescaled unless \<open>max - min === 0\<close>.
\<close>

definition normalizeIndicator :: "jsval \<Rightarrow> real \<Rightarrow> real \<Rightarrow> real" where
  "normalizeIndicator v mn mx =
     (case v of
        Number x \<Rightarrow>
          (let clampedValue = max mn (min mx x)
           in if mx - mn = 0 then 0 else (clampedValue - mn) / (mx - mn))
      | _ \<Rightarrow> 0)"

text \<open>
  \<open>applyLimits(indicatorName, value)\<close>. For the nine indicator names
  \<open>INDICATOR_LIMITS[indicatorName]\<close> is always an object, so the test \<open>limits &&\<close>
  holds; an invalid value is returned as it is.
\<close>

definition applyLimits :: "indicator \<Rightarrow> jsval \<Rightarrow> jsval" where
  "applyLimits indicatorName v =
     (let lims = INDICATOR_LIMITS indicatorName
      in case v of
           Number x \<Rightarrow> Number (max (lim_min lims) (min (lim_max lims) x))
         | _ \<Rightarrow> v)"

text \<open>The object returned when no epoch contains the year.\<close>

definition fallback_indicators :: indmap where
  "fallback_indicators = indicator_object 10000 0.45 8 3000 0.7 60 0.02 100 0.5"

text \<open>
  \<open>getEpochDataForYear(year)\<close>: the loop over the table, returning at the first epoch
  with \<open>year >= epoch.startYear && year <= epoch.endYear\<close>.
\<close>

definition in_epoch :: "jsval \<Rightarrow> epoch \<Rightarrow> bool" where
  "in_epoch year ep \<longleftrightarrow> js_ge year (Number (startYear ep)) \<and> js_le year (Number (endYear ep))"

fun scan_epochs :: "(string \<times> epoch) list \<Rightarrow> jsval \<Rightarrow> indmap" where
  "scan_epochs [] year = fallback_indicators"
| "scan_epochs ((key, ep) # rest) year =
     (if in_epoch year ep then epoch_indicators ep else scan_epochs rest year)"

definition getEpochDataForYear :: "jsval \<Rightarrow> indmap" where
  "getEpochDataForYear year = scan_epochs EPOCH_DATA_REFERENCE year"

text \<open>
  The four dimension values of \<open>calculateCTHFromIndicators\<close>. Every normalised value
  is a number, so the filter \<open>typeof val === 'number' && !isNaN(val)\<close> keeps the whole
  array; the test on its length is kept.
\<close>

definition average :: "real list \<Rightarrow> real" where
  "average vs = (if length vs > 0 then fold (\<lambda>v s. s + v) vs 0 / real (length vs) else 0)"

definition norm_of :: "indmap \<Rightarrow> indicator \<Rightarrow> real" where
  "norm_of inds n =
     normalizeIndicator (inds n) (lim_min (INDICATOR_LIMITS n)) (lim_max (INDICATOR_LIMITS n))"

definition E_val :: "indmap \<Rightarrow> real" where
  "E_val inds =
     average [norm_of inds gdpPerCapita, norm_of inds giniIndex, norm_of inds politicalEventsCount]"

definition S_val :: "indmap \<Rightarrow> real" where
  "S_val inds = average [norm_of inds averageIncome, norm_of inds literacyRate]"

definition A_val :: "indmap \<Rightarrow> real" where
  "A_val inds = average [norm_of inds lifeExpectancy, norm_of inds birthRate]"

definition P_val :: "indmap \<Rightarrow> real" where
  "P_val inds = average [norm_of inds populationDensity, norm_of inds urbanizationRate]"

definition weightedSum :: "weights \<Rightarrow> indmap \<Rightarrow> real" where
  "weightedSum w inds =
     (w_e w * E_val inds) + (w_s w * S_val inds) + (w_a w * A_val inds) + (w_p w * P_val inds)"

definition totalWeight :: "weights \<Rightarrow> real" where
  "totalWeight w = w_e w + w_s w + w_a w + w_p w"

text \<open>
  \<open>calculateCTHFromIndicators(indicators, customWeights)\<close>: \<open>customWeights ||
  DEFAULT_CTH_WEIGHTS\<close>, \<open>0\<close> when \<open>indicators\<close> is not an object, the guarded division
  and the final \<open>Math.max(0, Math.min(1, cth))\<close>.
\<close>

definition calculateCTHFromIndicators :: "indmap jsarg \<Rightarrow> weights option \<Rightarrow> real" where
  "calculateCTHFromIndicators indicators_arg customWeights =
     (let w = (case customWeights of Some cw \<Rightarrow> cw | None \<Rightarrow> DEFAULT_CTH_WEIGHTS)
      in case indicators_arg of
           ArgObject inds \<Rightarrow>
             (let cth_raw = (if totalWeight w > 0 then weightedSum w inds / totalWeight w else 0)
              in max 0 (min 1 cth_raw))
         | _ \<Rightarrow> 0)"

section \<open>The temporal data and the completion pipeline\<close>

datatype period = before | prelude | during | transition | after

definition periods :: "period list" where
  "periods = [before, prelude, during, transition, after]"

definition allIndicatorNames :: "indicator list" where
  "allIndicatorNames =
     [gdpPerCapita, giniIndex, politicalEventsCount, averageIncome,
      literacyRate, lifeExpectancy, birthRate, populationDensity, urbanizationRate]"

text \<open>
  After its first loop, \<open>completeAndInferHistoricalData\<close> touches the temporal data
  through four property accesses only: it reads and assigns
  \<open>temporalData[period].indicators[indicatorName]\<close> and \<open>temporalData[period].cth\<close>.
  The five steps are written once over these four accesses. They are then used with two
  representations of the object: as a value that each step returns updated, and as
  objects at addresses of a store, where the assignments are made in place.
\<close>

record 's access =
  read_indicator :: "'s \<Rightarrow> period \<Rightarrow> indicator \<Rightarrow> jsval"
  write_indicator :: "period \<Rightarrow> indicator \<Rightarrow> jsval \<Rightarrow> 's \<Rightarrow> 's"
  read_cth :: "'s \<Rightarrow> period \<Rightarrow> jsval"
  write_cth :: "period \<Rightarrow> jsval \<Rightarrow> 's \<Rightarrow> 's"

subsection \<open>Step 1: reference epoch data for missing indicators\<close>

fun periodYear :: "period \<Rightarrow> jsval \<Rightarrow> jsval \<Rightarrow> jsval" where
  "periodYear before eventStartYear eventEndYear = js_sub eventStartYear (Number 12)"
| "periodYear prelude eventStartYear eventEndYear = js_sub eventStartYear (Number 1)"
| "periodYear during eventStartYear eventEndYear =
     js_floor (js_div (js_add eventStartYear eventEndYear) (Number 2))"
| "periodYear transition eventStartYear eventEndYear = js_add eventEndYear (Number 1)"
| "periodYear after eventStartYear eventEndYear = js_add eventEndYear (Number 12)"

definition fill_indicator :: "'s access \<Rightarrow> indmap \<Rightarrow> period \<Rightarrow> indicator \<Rightarrow> 's \<Rightarrow> 's" where
  "fill_indicator A epochData period indicatorName td =
     (if missing (read_indicator A td period indicatorName)
      then write_indicator A period indicatorName (epochData indicatorName) td
      else td)"

definition fill_period :: "'s access \<Rightarrow> jsval \<Rightarrow> jsval \<Rightarrow> period \<Rightarrow> 's \<Rightarrow> 's" where
  "fill_period A eventStartYear eventEndYear period td =
     (let epochData = getEpochDataForYear (periodYear period eventStartYear eventEndYear)
      in fold (fill_indicator A epochData period) allIndicatorNames td)"

definition fill_from_epochs :: "'s access \<Rightarrow> jsval \<Rightarrow> jsval \<Rightarrow> 's \<Rightarrow> 's" where
  "fill_from_epochs A eventStartYear eventEndYear td =
     fold (fill_period A eventStartYear eventEndYear) periods td"

subsection \<open>Steps 2 and 5: the score of every period\<close>

definition score_period :: "'s access \<Rightarrow> period \<Rightarrow> 's \<Rightarrow> 's" where
  "score_period A period td =
     write_cth A period
       (Number (calculateCTHFromIndicators (ArgObject (read_indicator A td period)) None)) td"

definition recalculate_cth :: "'s access \<Rightarrow> 's \<Rightarrow> 's" where
  "recalculate_cth A td = fold (score_period A) periods td"

subsection \<open>Step 3: inference from adjacent periods\<close>

datatype direction = forward | backward

definition estimateIndicatorValue :: "jsval \<Rightarrow> jsval \<Rightarrow> jsval \<Rightarrow> direction \<Rightarrow> real" where
  "estimateIndicatorValue knownValue deltaCTHPercentage trendRelation dir =
     (case knownValue of
        Number k \<Rightarrow>
          if k < 0 then 0
          else
            (let d = (case deltaCTHPercentage of Number x \<Rightarrow> x | _ \<Rightarrow> 0);
                 t = (case trendRelation of Number x \<Rightarrow> if x < 0 then 1 else x | _ \<Rightarrow> 1);
                 estimatedChangeFactor = d * t
             in case dir of
                  forward \<Rightarrow> k * (1 + estimatedChangeFactor)
                | backward \<Rightarrow>
                    if 1 + estimatedChangeFactor = 0 then k
                    else k / (1 + estimatedChangeFactor))
      | _ \<Rightarrow> 0)"

definition calculatePercentageChange :: "jsval \<Rightarrow> jsval \<Rightarrow> real" where
  "calculatePercentageChange val1 val2 =
     (case val1 of
        Number v1 \<Rightarrow>
          if v1 = 0 then 0
          else (case val2 of Number v2 \<Rightarrow> (v2 - v1) / v1 | _ \<Rightarrow> 0)
      | _ \<Rightarrow> 0)"

text \<open>
  The object \<open>deltaCTHs\<close>: its keys are the strings \<open>p1_p2_Pct\<close>, here the pair of the
  two periods. A key that is not there reads as \<open>undefined\<close>.
\<close>

type_synonym deltas = "(period \<times> period) \<Rightarrow> real option"

definition delta_entry :: "'s access \<Rightarrow> 's \<Rightarrow> nat \<Rightarrow> deltas \<Rightarrow> deltas" where
  "delta_entry A td i deltaCTHs =
     (let p1 = periods ! i; p2 = periods ! (i + 1)
      in if read_cth A td p1 \<noteq> Undefined \<and> read_cth A td p2 \<noteq> Undefined
         then deltaCTHs((p1, p2) :=
                Some (calculatePercentageChange (read_cth A td p1) (read_cth A td p2)))
         else deltaCTHs((p1, p2) := Some 0))"

definition prepare_deltaCTHs :: "'s access \<Rightarrow> 's \<Rightarrow> deltas" where
  "prepare_deltaCTHs A td = fold (delta_entry A td) [0 ..< length periods - 1] (\<lambda>k. None)"

definition delta_lookup :: "deltas \<Rightarrow> period \<Rightarrow> period \<Rightarrow> jsval" where
  "delta_lookup deltaCTHs p1 p2 =
     (case deltaCTHs (p1, p2) of None \<Rightarrow> Undefined | Some d \<Rightarrow> Number d)"

text \<open>\<open>periods[i - 1]\<close> and \<open>periods[i + 1]\<close>: \<open>undefined\<close> outside the array.\<close>

definition period_at :: "int \<Rightarrow> period option" where
  "period_at i = (if 0 \<le> i \<and> i < int (length periods) then Some (periods ! nat i) else None)"

text \<open>
  \<open>hasPrevData\<close> and \<open>hasNextData\<close>, together with the period and the value they
  were read from: \<open>p && (temporalData[p].indicators[name] !== undefined && ... !== null)\<close>.
\<close>

definition adjacent_data ::
  "'s access \<Rightarrow> 's \<Rightarrow> period option \<Rightarrow> indicator \<Rightarrow> (period \<times> jsval) option" where
  "adjacent_data A td p indicatorName =
     (case p of
        None \<Rightarrow> None
      | Some q \<Rightarrow>
          if missing (read_indicator A td q indicatorName) then None
          else Some (q, read_indicator A td q indicatorName))"

text \<open>
  The chain \<open>if (hasPrevData && hasNextData) ... else if (hasPrevData) ... else if
  (hasNextData) ...\<close> that computes \<open>inferredValue\<close>, \<open>null\<close> at first.
\<close>

definition inferredValue_of ::
  "deltas \<Rightarrow> period \<Rightarrow> (period \<times> jsval) option \<Rightarrow> (period \<times> jsval) option \<Rightarrow> jsval" where
  "inferredValue_of deltaCTHs currentPeriod prevData nextData =
     (case prevData of
        Some (prevPeriod, pv) \<Rightarrow>
          (case nextData of
             Some (nextPeriod, nv) \<Rightarrow> js_div (js_add pv nv) (Number 2)
           | None \<Rightarrow>
               (let deltaCTH_PrevCurrent_Pct = delta_lookup deltaCTHs prevPeriod currentPeriod
                in if deltaCTH_PrevCurrent_Pct \<noteq> Number 0
                   then Number (estimateIndicatorValue pv deltaCTH_PrevCurrent_Pct (Number 1) forward)
                   else Null))
      | None \<Rightarrow>
          (case nextData of
             Some (nextPeriod, nv) \<Rightarrow>
               (let deltaCTH_CurrentNext_Pct = delta_lookup deltaCTHs currentPeriod nextPeriod
                in if deltaCTH_CurrentNext_Pct \<noteq> Number 0
                   then Number (estimateIndicatorValue nv deltaCTH_CurrentNext_Pct (Number 1) backward)
                   else Null)
           | None \<Rightarrow> Null))"

definition infer_indicator :: "'s access \<Rightarrow> deltas \<Rightarrow> nat \<Rightarrow> indicator \<Rightarrow> 's \<Rightarrow> 's" where
  "infer_indicator A deltaCTHs i indicatorName td =
     (let currentPeriod = periods ! i
      in if missing (read_indicator A td currentPeriod indicatorName)
         then
           (let prevData = adjacent_data A td (period_at (int i - 1)) indicatorName;
                nextData = adjacent_data A td (period_at (int i + 1)) indicatorName;
                inferredValue = inferredValue_of deltaCTHs currentPeriod prevData nextData
            in if inferredValue \<noteq> Null
               then write_indicator A currentPeriod indicatorName
                      (applyLimits indicatorName inferredValue) td
               else td)
         else td)"

definition infer_period :: "'s access \<Rightarrow> deltas \<Rightarrow> nat \<Rightarrow> 's \<Rightarrow> 's" where
  "infer_period A deltaCTHs i td = fold (infer_indicator A deltaCTHs i) allIndicatorNames td"

definition infer_pass :: "'s access \<Rightarrow> deltas \<Rightarrow> nat \<Rightarrow> 's \<Rightarrow> 's" where
  "infer_pass A deltaCTHs pass td = fold (infer_period A deltaCTHs) [0 ..< length periods] td"

definition maxInferencePasses :: nat where
  "maxInferencePasses = 3"

definition infer_missing :: "'s access \<Rightarrow> deltas \<Rightarrow> 's \<Rightarrow> 's" where
  "infer_missing A deltaCTHs td = fold (infer_pass A deltaCTHs) [0 ..< maxInferencePasses] td"

subsection \<open>Step 4: limits on all indicators\<close>

definition limit_indicator :: "'s access \<Rightarrow> period \<Rightarrow> indicator \<Rightarrow> 's \<Rightarrow> 's" where
  "limit_indicator A period indicatorName td =
     (if \<not> missing (read_indicator A td period indicatorName)
      then write_indicator A period indicatorName
             (applyLimits indicatorName (read_indicator A td period indicatorName)) td
      else td)"

definition limit_period :: "'s access \<Rightarrow> period \<Rightarrow> 's \<Rightarrow> 's" where
  "limit_period A period td = fold (limit_indicator A period) allIndicatorNames td"

definition limit_all :: "'s access \<Rightarrow> 's \<Rightarrow> 's" where
  "limit_all A td = fold (limit_period A) periods td"

subsection \<open>The five steps in sequence\<close>

definition complete_steps :: "'s access \<Rightarrow> jsval \<Rightarrow> jsval \<Rightarrow> 's \<Rightarrow> 's" where
  "complete_steps A eventStartYear eventEndYear td0 =
     (let td1 = fill_from_epochs A eventStartYear eventEndYear td0;
          td2 = recalculate_cth A td1;
          deltaCTHs = prepare_deltaCTHs A td2;
          td3 = infer_missing A deltaCTHs td2;
          td4 = limit_all A td3
      in recalculate_cth A td4)"

section \<open>The temporal data as a value\<close>

text \<open>
  What a caller passes: each of the five period properties may be absent, and a period
  object may lack its \<open>indicators\<close> object and its \<open>cth\<close>.
\<close>

record raw_phase =
  raw_indicators :: "indmap option"
  raw_cth :: jsval

type_synonym raw_temporalData = "period \<Rightarrow> raw_phase option"

text \<open>
  The object after the first loop of \<open>completeAndInferHistoricalData\<close>: every period
  and every \<open>indicators\<close> sub-object exists.
\<close>

record phase =
  indicators :: indmap
  cth :: jsval

type_synonym temporalData = "period \<Rightarrow> phase"

definition value_access :: "temporalData access" where
  "value_access =
     \<lparr>read_indicator = (\<lambda>td period indicatorName. indicators (td period) indicatorName),
      write_indicator = (\<lambda>period indicatorName v td.
         td(period := (td period)\<lparr>indicators := (indicators (td period))(indicatorName := v)\<rparr>)),
      read_cth = (\<lambda>td period. cth (td period)),
      write_cth = (\<lambda>period v td. td(period := (td period)\<lparr>cth := v\<rparr>))\<rparr>"

text \<open>The object literal \<open>{}\<close>.\<close>

definition empty_object :: indmap where
  "empty_object = (\<lambda>n. Undefined)"

text \<open>
  \<open>temporalData[period] = temporalData[period] || {}\<close> and
  \<open>temporalData[period].indicators = temporalData[period].indicators || {}\<close>.
\<close>

definition ensure_period :: "raw_phase option \<Rightarrow> phase" where
  "ensure_period rp =
     (case rp of
        None \<Rightarrow> \<lparr>indicators = empty_object, cth = Undefined\<rparr>
      | Some ph \<Rightarrow>
          \<lparr>indicators = (case raw_indicators ph of None \<Rightarrow> empty_object | Some f \<Rightarrow> f),
           cth = raw_cth ph\<rparr>)"

definition ensure_periods :: "raw_temporalData \<Rightarrow> temporalData" where
  "ensure_periods raw = (\<lambda>period. ensure_period (raw period))"

datatype error = Error string

text \<open>
  \<open>completeAndInferHistoricalData(temporalData, eventStartYear, eventEndYear)\<close>: it
  throws when \<open>temporalData\<close> is not an object, and otherwise runs the five steps. The
  result is the object it has modified.
\<close>

definition completeAndInferHistoricalData ::
  "raw_temporalData jsarg \<Rightarrow> jsval \<Rightarrow> jsval \<Rightarrow> error + temporalData" where
  "completeAndInferHistoricalData temporalData eventStartYear eventEndYear =
     (case temporalData of
        ArgObject raw \<Rightarrow>
          Inr (complete_steps value_access eventStartYear eventEndYear (ensure_periods raw))
      | _ \<Rightarrow>
          Inl (Error ''temporalData is undefined or not an object in completeAndInferHistoricalData.''))"

text \<open>
  The copy made by \<open>analyzeEventCTH\<close> for one period:
  \<open>{ indicators: init.p?.indicators ? { ...init.p.indicators } : {} }\<close>.
\<close>

definition copy_period :: "raw_temporalData \<Rightarrow> period \<Rightarrow> raw_phase" where
  "copy_period init period =
     \<lparr>raw_indicators =
        Some (case init period of
                None \<Rightarrow> empty_object
              | Some ph \<Rightarrow> (case raw_indicators ph of None \<Rightarrow> empty_object | Some f \<Rightarrow> f)),
      raw_cth = Undefined\<rparr>"

text \<open>
  \<open>analyzeEventCTH(eventStartYear, eventEndYear, initialHistoricalData)\<close>. \<open>Inr None\<close>
  is the returned \<open>null\<close>, \<open>Inl\<close> an exception that leaves the function.
\<close>

definition analyzeEventCTH ::
  "jsval \<Rightarrow> jsval \<Rightarrow> raw_temporalData jsarg \<Rightarrow> error + temporalData option" where
  "analyzeEventCTH eventStartYear eventEndYear initialHistoricalData =
     (if \<not> valid_number eventStartYear \<or> \<not> valid_number eventEndYear then Inr None
      else if js_gt eventStartYear eventEndYear then Inr None
      else
        (case initialHistoricalData of
           ArgObject init \<Rightarrow>
             (let temporalData = (\<lambda>period. Some (copy_period init period))
              in case completeAndInferHistoricalData (ArgObject temporalData)
                        eventStartYear eventEndYear of
                   Inl err \<Rightarrow> Inl err
                 | Inr td \<Rightarrow> Inr (Some td))
         | _ \<Rightarrow> Inr None))"

section \<open>The temporal data as objects in a store\<close>

text \<open>
  Objects live at addresses; a property that holds an object holds its address. Three
  kinds of object occur: an \<open>indicators\<close> object, a period object with its optional
  \<open>indicators\<close> reference and its \<open>cth\<close>, and the data object with one optional
  reference per period. The store is the list of all objects, an address is an index,
  and a new object gets the next index. The language has no dangling reference and
  no way to turn an object of one kind into another; where a reference does not lead to
  an object of the expected kind, a read gives \<open>undefined\<close> and an assignment leaves the
  store as it is. After the first loop of \<open>completeAndInferHistoricalData\<close> this does
  not occur.
\<close>

type_synonym addr = nat

datatype obj =
    IndicatorsObj indmap
  | PhaseObj "addr option" jsval
  | DataObj "period \<Rightarrow> addr option"

type_synonym store = "obj list"

definition lookup :: "store \<Rightarrow> addr \<Rightarrow> obj option" where
  "lookup st a = (if a < length st then Some (st ! a) else None)"

definition alloc :: "obj \<Rightarrow> store \<Rightarrow> addr \<times> store" where
  "alloc ob st = (length st, st @ [ob])"

text \<open>\<open>temporalData[period]\<close>\<close>

definition phase_ref :: "store \<Rightarrow> addr \<Rightarrow> period \<Rightarrow> addr option" where
  "phase_ref st data_ref period =
     (case lookup st data_ref of Some (DataObj phases) \<Rightarrow> phases period | _ \<Rightarrow> None)"

text \<open>\<open>temporalData[period].indicators\<close>\<close>

definition indicators_ref :: "store \<Rightarrow> addr \<Rightarrow> period \<Rightarrow> addr option" where
  "indicators_ref st data_ref period =
     (case phase_ref st data_ref period of
        None \<Rightarrow> None
      | Some pa \<Rightarrow> (case lookup st pa of Some (PhaseObj io c) \<Rightarrow> io | _ \<Rightarrow> None))"

definition st_read_indicator :: "addr \<Rightarrow> store \<Rightarrow> period \<Rightarrow> indicator \<Rightarrow> jsval" where
  "st_read_indicator data_ref st period indicatorName =
     (case indicators_ref st data_ref period of
        None \<Rightarrow> Undefined
      | Some ia \<Rightarrow>
          (case lookup st ia of Some (IndicatorsObj f) \<Rightarrow> f indicatorName | _ \<Rightarrow> Undefined))"

definition st_write_indicator :: "addr \<Rightarrow> period \<Rightarrow> indicator \<Rightarrow> jsval \<Rightarrow> store \<Rightarrow> store" where
  "st_write_indicator data_ref period indicatorName v st =
     (case indicators_ref st data_ref period of
        None \<Rightarrow> st
      | Some ia \<Rightarrow>
          (case lookup st ia of
             Some (IndicatorsObj f) \<Rightarrow> st[ia := IndicatorsObj (f(indicatorName := v))]
           | _ \<Rightarrow> st))"

definition st_read_cth :: "addr \<Rightarrow> store \<Rightarrow> period \<Rightarrow> jsval" where
  "st_read_cth data_ref st period =
     (case phase_ref st data_ref period of
        None \<Rightarrow> Undefined
      | Some pa \<Rightarrow> (case lookup st pa of Some (PhaseObj io c) \<Rightarrow> c | _ \<Rightarrow> Undefined))"

definition st_write_cth :: "addr \<Rightarrow> period \<Rightarrow> jsval \<Rightarrow> store \<Rightarrow> store" where
  "st_write_cth data_ref period v st =
     (case phase_ref st data_ref period of
        None \<Rightarrow> st
      | Some pa \<Rightarrow>
          (case lookup st pa of Some (PhaseObj io c) \<Rightarrow> st[pa := PhaseObj io v] | _ \<Rightarrow> st))"

definition store_access :: "addr \<Rightarrow> store access" where
  "store_access data_ref =
     \<lparr>read_indicator = st_read_indicator data_ref,
      write_indicator = st_write_indicator data_ref,
      read_cth = st_read_cth data_ref,
      write_cth = st_write_cth data_ref\<rparr>"

text \<open>
  The first loop in the store: \<open>temporalData[period] = temporalData[period] || {}\<close>
  makes a period object where there is none, and
  \<open>temporalData[period].indicators = temporalData[period].indicators || {}\<close> an
  \<open>indicators\<close> object.
\<close>

definition st_ensure_phase :: "addr \<Rightarrow> period \<Rightarrow> store \<Rightarrow> store" where
  "st_ensure_phase data_ref period st =
     (case lookup st data_ref of
        Some (DataObj phases) \<Rightarrow>
          (case phases period of
             Some pa \<Rightarrow> st
           | None \<Rightarrow>
               (let (pa, st') = alloc (PhaseObj None Undefined) st
                in st'[data_ref := DataObj (phases(period := Some pa))]))
      | _ \<Rightarrow> st)"

definition st_ensure_indicators :: "addr \<Rightarrow> period \<Rightarrow> store \<Rightarrow> store" where
  "st_ensure_indicators data_ref period st =
     (case phase_ref st data_ref period of
        None \<Rightarrow> st
      | Some pa \<Rightarrow>
          (case lookup st pa of
             Some (PhaseObj None c) \<Rightarrow>
               (let (ia, st') = alloc (IndicatorsObj empty_object) st
                in st'[pa := PhaseObj (Some ia) c])
           | _ \<Rightarrow> st))"

definition st_ensure_period :: "addr \<Rightarrow> period \<Rightarrow> store \<Rightarrow> store" where
  "st_ensure_period data_ref period st =
     st_ensure_indicators data_ref period (st_ensure_phase data_ref period st)"

text \<open>
  \<open>completeAndInferHistoricalData\<close> on the object at an address: it returns nothing
  (\<open>None\<close>) or throws, and leaves its result in the store.
\<close>

definition st_completeAndInferHistoricalData ::
  "addr jsarg \<Rightarrow> jsval \<Rightarrow> jsval \<Rightarrow> store \<Rightarrow> error option \<times> store" where
  "st_completeAndInferHistoricalData temporalData eventStartYear eventEndYear st =
     (case temporalData of
        ArgObject data_ref \<Rightarrow>
          (None,
           complete_steps (store_access data_ref) eventStartYear eventEndYear
             (fold (st_ensure_period data_ref) periods st))
      | _ \<Rightarrow>
          (Some (Error ''temporalData is undefined or not an object in completeAndInferHistoricalData.''),
           st))"

text \<open>
  One property of the object literal in \<open>analyzeEventCTH\<close>: the spread
  \<open>{ ...init.p.indicators }\<close>, or \<open>{}\<close>, is a new \<open>indicators\<close> object, and
  \<open>{ indicators: ... }\<close> a new period object that refers to it.
\<close>

definition st_copy_period :: "addr \<Rightarrow> period \<Rightarrow> store \<Rightarrow> addr \<times> store" where
  "st_copy_period init period st =
     (let (ia, st1) = alloc (IndicatorsObj (st_read_indicator init st period)) st
      in alloc (PhaseObj (Some ia) Undefined) st1)"

text \<open>
  The object literal \<open>const temporalData = { before: ..., prelude: ..., during: ...,
  transition: ..., after: ... }\<close>: five copies, then the data object that refers to
  them.
\<close>

definition st_new_temporalData :: "addr \<Rightarrow> store \<Rightarrow> addr \<times> store" where
  "st_new_temporalData init st =
     (let (pa_before, st1) = st_copy_period init before st;
          (pa_prelude, st2) = st_copy_period init prelude st1;
          (pa_during, st3) = st_copy_period init during st2;
          (pa_transition, st4) = st_copy_period init transition st3;
          (pa_after, st5) = st_copy_period init after st4
      in alloc (DataObj (\<lambda>period. Some (case period of
                   before \<Rightarrow> pa_before
                 | prelude \<Rightarrow> pa_prelude
                 | during \<Rightarrow> pa_during
                 | transition \<Rightarrow> pa_transition
                 | after \<Rightarrow> pa_after))) st5)"

text \<open>
  \<open>analyzeEventCTH\<close> with the caller's data at an address: the result is \<open>null\<close>
  (\<open>Inr None\<close>) or the address of the new object, together with the store it leaves.
\<close>

definition st_analyzeEventCTH ::
  "jsval \<Rightarrow> jsval \<Rightarrow> addr jsarg \<Rightarrow> store \<Rightarrow> (error + addr option) \<times> store" where
  "st_analyzeEventCTH eventStartYear eventEndYear initialHistoricalData st =
     (if \<not> valid_number eventStartYear \<or> \<not> valid_number eventEndYear then (Inr None, st)
      else if js_gt eventStartYear eventEndYear then (Inr None, st)
      else
        (case initialHistoricalData of
           ArgObject init \<Rightarrow>
             (let (temporalData, st6) = st_new_temporalData init st
              in case st_completeAndInferHistoricalData (ArgObject temporalData)
                        eventStartYear eventEndYear st6 of
                   (Some err, st7) \<Rightarrow> (Inl err, st7)
                 | (None, st7) \<Rightarrow> (Inr (Some temporalData), st7))
         | _ \<Rightarrow> (Inr None, st)))"

section \<open>Notions used to state the properties\<close>

text \<open>
  The value a caller's data holds for an indicator of a period, \<open>undefined\<close> where the
  period, its \<open>indicators\<close> object or the property is absent.
\<close>

definition supplied :: "raw_temporalData \<Rightarrow> period \<Rightarrow> indicator \<Rightarrow> jsval" where
  "supplied init period indicatorName = indicators (ensure_period (init period)) indicatorName"

definition within_limits :: "indicator \<Rightarrow> jsval \<Rightarrow> bool" where
  "within_limits indicatorName v =
     (case v of
        Number x \<Rightarrow>
          lim_min (INDICATOR_LIMITS indicatorName) \<le> x \<and> x \<le> lim_max (INDICATOR_LIMITS indicatorName)
      | _ \<Rightarrow> False)"

definition unit_interval :: "jsval \<Rightarrow> bool" where
  "unit_interval v = (case v of Number x \<Rightarrow> 0 \<le> x \<and> x \<le> 1 | _ \<Rightarrow> False)"

text \<open>What a result of \<open>analyzeEventCTH\<close> holds, if it is an object.\<close>

definition output_indicator ::
  "error + temporalData option \<Rightarrow> period \<Rightarrow> indicator \<Rightarrow> jsval option" where
  "output_indicator r period indicatorName =
     (case r of Inr (Some td) \<Rightarrow> Some (indicators (td period) indicatorName) | _ \<Rightarrow> None)"

definition output_cth :: "error + temporalData option \<Rightarrow> period \<Rightarrow> jsval option" where
  "output_cth r period = (case r of Inr (Some td) \<Rightarrow> Some (cth (td period)) | _ \<Rightarrow> None)"

text \<open>A returned object, passed again as \<open>initialHistoricalData\<close>.\<close>

definition as_input :: "temporalData \<Rightarrow> raw_temporalData" where
  "as_input td =
     (\<lambda>period. Some \<lparr>raw_indicators = Some (indicators (td period)), raw_cth = cth (td period)\<rparr>)"

text \<open>All nine indicators of a period are given, or none is.\<close>

definition fully_specified :: "raw_temporalData \<Rightarrow> period \<Rightarrow> bool" where
  "fully_specified init period =
     list_all (\<lambda>n. \<not> missing (supplied init period n)) allIndicatorNames"

definition nothing_specified :: "raw_temporalData \<Rightarrow> period \<Rightarrow> bool" where
  "nothing_specified init period =
     list_all (\<lambda>n. missing (supplied init period n)) allIndicatorNames"

text \<open>
  Every period object and every \<open>indicators\<close> object that the data object at
  \<open>data_ref\<close> refers to is at an address from \<open>base\<close> on.
\<close>

definition refers_from :: "nat \<Rightarrow> store \<Rightarrow> addr \<Rightarrow> bool" where
  "refers_from base st data_ref \<longleftrightarrow>
     (\<forall>period pa. phase_ref st data_ref period = Some pa \<longrightarrow> base \<le> pa)
   \<and> (\<forall>period ia. indicators_ref st data_ref period = Some ia \<longrightarrow> base \<le> ia)"

text \<open>The data that a caller's object at \<open>init\<close> holds, read from the store.\<close>

definition st_data :: "store \<Rightarrow> addr \<Rightarrow> raw_temporalData" where
  "st_data st init =
     (\<lambda>period. Some \<lparr>raw_indicators = Some (st_read_indicator init st period),
                      raw_cth = Undefined\<rparr>)"

text \<open>The temporal data that the object at \<open>data_ref\<close> holds, read from the store.\<close>

definition st_result :: "store \<Rightarrow> addr \<Rightarrow> temporalData" where
  "st_result st data_ref =
     (\<lambda>period. \<lparr>indicators = st_read_indicator data_ref st period,
                 cth = st_read_cth data_ref st period\<rparr>)"

text \<open>No object of the store holds a reference to an address that is not in the store.\<close>

definition no_dangling :: "store \<Rightarrow> bool" where
  "no_dangling st \<longleftrightarrow>
     (\<forall>a phases period pa. lookup st a = Some (DataObj phases) \<and> phases period = Some pa
                             \<longrightarrow> pa < length st)
   \<and> (\<forall>a ia c. lookup st a = Some (PhaseObj (Some ia) c) \<longrightarrow> ia < length st)"

text \<open>
  The data object at \<open>data_ref\<close> has all five period objects, at the addresses \<open>pa\<close>,
  and they have their \<open>indicators\<close> objects, at the addresses \<open>ia\<close>.
\<close>

definition laid_out :: "(period \<Rightarrow> addr) \<Rightarrow> (period \<Rightarrow> addr) \<Rightarrow> addr \<Rightarrow> store \<Rightarrow> bool" where
  "laid_out pa ia data_ref st \<longleftrightarrow>
     (\<forall>period. phase_ref st data_ref period = Some (pa period)
              \<and> indicators_ref st data_ref period = Some (ia period)
              \<and> (\<exists>f. lookup st (ia period) = Some (IndicatorsObj f)))"

subsection \<open>Concrete inputs\<close>

text \<open>An object with the single property \<open>indicators\<close>.\<close>

definition phase_with :: "indmap \<Rightarrow> raw_phase" where
  "phase_with inds = \<lparr>raw_indicators = Some inds, raw_cth = Undefined\<rparr>"

text \<open>The \<open>during\<close> indicators of the example in \<open>cth-analysis-module-test.js\<close>.\<close>

definition example_during :: indmap where
  "example_during = indicator_object 1800 0.52 5 250 0.30 40 0.030 30 0.25"

definition during_only :: raw_temporalData where
  "during_only = (\<lambda>period. if period = during then Some (phase_with example_during) else None)"

text \<open>
  \<open>gdpPerCapita\<close> given as 1000 for \<open>before\<close> and as 3000 for \<open>during\<close>, and nothing
  else.
\<close>

definition gdp_around_prelude :: raw_temporalData where
  "gdp_around_prelude =
     (\<lambda>period.
        if period = before then Some (phase_with (empty_object(gdpPerCapita := Number 1000)))
        else if period = during then Some (phase_with (empty_object(gdpPerCapita := Number 3000)))
        else None)"

text \<open>\<open>gdpPerCapita\<close> given as \<open>NaN\<close> for \<open>before\<close>, and nothing else.\<close>

definition gdp_nan :: raw_temporalData where
  "gdp_nan =
     (\<lambda>period.
        if period = before then Some (phase_with (empty_object(gdpPerCapita := NaN)))
        else None)"

text \<open>\<open>gdpPerCapita\<close> given as the string \<open>'abc'\<close> for \<open>before\<close>, and nothing else.\<close>

definition gdp_text :: raw_temporalData where
  "gdp_text =
     (\<lambda>period.
        if period = before
        then Some (phase_with (empty_object(gdpPerCapita := Other None ''abc'')))
        else None)"

text \<open>
  A store with a caller's data object at address 2: its only period is \<open>during\<close>, the
  period object at address 1, whose \<open>indicators\<close> object is at address 0.
\<close>

definition example_store :: store where
  "example_store =
     [IndicatorsObj example_during,
      PhaseObj (Some 0) Undefined,
      DataObj (\<lambda>period. if period = during then Some 1 else None)]"

section \<open>The loops of the pipeline\<close>

text \<open>
  Each loop is a \<open>fold\<close>; on the value representation the loops over the periods and
  over the indicator names have closed forms.
\<close>

lemma set_allIndicatorNames: "set allIndicatorNames = UNIV"
proof -
  have "n \<in> set allIndicatorNames" for n
    by (cases n) (simp_all add: allIndicatorNames_def)
  then show ?thesis by blast
qed

lemma distinct_allIndicatorNames: "distinct allIndicatorNames"
  by (simp add: allIndicatorNames_def)

lemma set_periods: "set periods = UNIV"
proof -
  have "p \<in> set periods" for p
    by (cases p) (simp_all add: periods_def)
  then show ?thesis by blast
qed

lemma distinct_periods: "distinct periods"
  by (simp add: periods_def)

lemma fold_pointwise:
  "distinct xs \<Longrightarrow>
   fold (\<lambda>x f. f(x := g x (f x))) xs f = (\<lambda>x. if x \<in> set xs then g x (f x) else f x)"
proof (induction xs arbitrary: f)
  case Nil
  show ?case by simp
next
  case (Cons a xs)
  then show ?case by (auto simp: fun_eq_iff)
qed

lemma fold_unchanged: "(\<And>x. x \<in> set xs \<Longrightarrow> f x s = s) \<Longrightarrow> fold f xs s = s"
  by (induction xs) simp_all

lemma applyLimits_missing: "missing v \<Longrightarrow> applyLimits n v = v"
  by (cases v) (simp_all add: applyLimits_def)

lemma value_access_simps:
  "read_indicator value_access td p = indicators (td p)"
  "write_indicator value_access p n v td =
     td(p := (td p)\<lparr>indicators := (indicators (td p))(n := v)\<rparr>)"
  "read_cth value_access td p = cth (td p)"
  "write_cth value_access p v td = td(p := (td p)\<lparr>cth := v\<rparr>)"
  by (simp_all add: value_access_def)

text \<open>A loop over the indicator names that assigns slot by slot within one period.\<close>

lemma fold_slots:
  "distinct ns \<Longrightarrow>
   fold (\<lambda>n td. td(p := (td p)\<lparr>indicators := (indicators (td p))(n := g n (indicators (td p) n))\<rparr>)) ns td
   = td(p := (td p)\<lparr>indicators :=
        (\<lambda>n. if n \<in> set ns then g n (indicators (td p) n) else indicators (td p) n)\<rparr>)"
proof (induction ns arbitrary: td)
  case Nil
  show ?case by simp
next
  case (Cons a ns)
  then show ?case by (auto simp: fun_eq_iff)
qed

lemma fill_period_value:
  "fill_period value_access s e p td =
     td(p := (td p)\<lparr>indicators :=
        (\<lambda>n. if missing (indicators (td p) n)
              then getEpochDataForYear (periodYear p s e) n
              else indicators (td p) n)\<rparr>)"
proof -
  let ?ep = "getEpochDataForYear (periodYear p s e)"
  have "fill_indicator value_access ?ep p =
        (\<lambda>n td. td(p := (td p)\<lparr>indicators := (indicators (td p))
           (n := (\<lambda>n v. if missing v then ?ep n else v) n (indicators (td p) n))\<rparr>))"
    by (auto simp: fill_indicator_def value_access_simps fun_eq_iff)
  then show ?thesis
    unfolding fill_period_def Let_def
    using fold_slots[OF distinct_allIndicatorNames,
        where g = "\<lambda>n v. if missing v then ?ep n else v" and p = p and td = td]
    by (simp add: set_allIndicatorNames)
qed

lemma fill_from_epochs_value:
  "fill_from_epochs value_access s e td =
     (\<lambda>p. (td p)\<lparr>indicators :=
        (\<lambda>n. if missing (indicators (td p) n)
              then getEpochDataForYear (periodYear p s e) n
              else indicators (td p) n)\<rparr>)"
proof -
  have "fill_period value_access s e =
        (\<lambda>p td. td(p := (\<lambda>p ph. ph\<lparr>indicators :=
           (\<lambda>n. if missing (indicators ph n)
                 then getEpochDataForYear (periodYear p s e) n
                 else indicators ph n)\<rparr>) p (td p)))"
    by (simp add: fill_period_value fun_eq_iff)
  then show ?thesis
    unfolding fill_from_epochs_def
    using fold_pointwise[OF distinct_periods,
      where g = "\<lambda>p ph. ph\<lparr>indicators := (\<lambda>n. if missing (indicators ph n)
                                      then getEpochDataForYear (periodYear p s e) n
                                      else indicators ph n)\<rparr>" and f = td]
    by (simp add: set_periods)
qed

lemma recalculate_cth_value:
  "recalculate_cth value_access td =
     (\<lambda>p. (td p)\<lparr>cth := Number (calculateCTHFromIndicators (ArgObject (indicators (td p))) None)\<rparr>)"
proof -
  have "score_period value_access =
        (\<lambda>p td. td(p := (\<lambda>p ph. ph\<lparr>cth :=
           Number (calculateCTHFromIndicators (ArgObject (indicators ph)) None)\<rparr>) p (td p)))"
    by (simp add: score_period_def value_access_simps fun_eq_iff)
  then show ?thesis
    unfolding recalculate_cth_def
    using fold_pointwise[OF distinct_periods,
      where g = "\<lambda>p ph. ph\<lparr>cth := Number (calculateCTHFromIndicators (ArgObject (indicators ph)) None)\<rparr>"
        and f = td]
    by (simp add: set_periods)
qed

lemma limit_period_value:
  "limit_period value_access p td =
     td(p := (td p)\<lparr>indicators := (\<lambda>n. applyLimits n (indicators (td p) n))\<rparr>)"
proof -
  have "limit_indicator value_access p =
        (\<lambda>n td. td(p := (td p)\<lparr>indicators := (indicators (td p))
           (n := applyLimits n (indicators (td p) n))\<rparr>))"
    by (auto simp: limit_indicator_def value_access_simps fun_eq_iff applyLimits_missing)
  then show ?thesis
    unfolding limit_period_def
    using fold_slots[OF distinct_allIndicatorNames, where g = applyLimits and p = p and td = td]
    by (simp add: set_allIndicatorNames)
qed

lemma limit_all_value:
  "limit_all value_access td =
     (\<lambda>p. (td p)\<lparr>indicators := (\<lambda>n. applyLimits n (indicators (td p) n))\<rparr>)"
proof -
  have "limit_period value_access =
        (\<lambda>p td. td(p := (\<lambda>p ph. ph\<lparr>indicators :=
           (\<lambda>n. applyLimits n (indicators ph n))\<rparr>) p (td p)))"
    by (simp add: limit_period_value fun_eq_iff)
  then show ?thesis
    unfolding limit_all_def
    using fold_pointwise[OF distinct_periods,
      where g = "\<lambda>p ph. ph\<lparr>indicators := (\<lambda>n. applyLimits n (indicators ph n))\<rparr>" and f = td]
    by (simp add: set_periods)
qed

text \<open>Step 3 assigns nothing when no indicator is missing.\<close>

lemma infer_missing_complete:
  assumes "\<And>p n. \<not> missing (read_indicator A td p n)"
  shows "infer_missing A deltaCTHs td = td"
proof -
  have ind: "infer_indicator A deltaCTHs i n td = td" for i n
    using assms by (simp add: infer_indicator_def Let_def)
  have per: "infer_period A deltaCTHs i td = td" for i
    unfolding infer_period_def by (rule fold_unchanged) (rule ind)
  have pass: "infer_pass A deltaCTHs k td = td" for k
    unfolding infer_pass_def by (rule fold_unchanged) (rule per)
  show ?thesis
    unfolding infer_missing_def by (rule fold_unchanged) (rule pass)
qed

subsection \<open>The epoch values are valid numbers within the limits\<close>

lemma valid_indicator_object: "valid_number (indicator_object a b c d e f g h i n)"
  by (cases n) simp_all

lemma scan_epochs_prop:
  "P fallback_indicators \<Longrightarrow> (\<And>kv. kv \<in> set tbl \<Longrightarrow> P (epoch_indicators (snd kv))) \<Longrightarrow>
   P (scan_epochs tbl year)"
proof (induction tbl)
  case Nil
  then show ?case by simp
next
  case (Cons kv tbl)
  obtain key ep where kv: "kv = (key, ep)" by (cases kv)
  have "P (epoch_indicators ep)"
    using Cons.prems(2)[of kv] by (simp add: kv)
  moreover have "P (scan_epochs tbl year)"
    using Cons.IH Cons.prems by simp
  ultimately show ?case by (simp add: kv)
qed

lemma getEpochDataForYear_valid: "valid_number (getEpochDataForYear year n)"
  unfolding getEpochDataForYear_def
  by (rule scan_epochs_prop[where P = "\<lambda>f. valid_number (f n)"])
     (auto simp: fallback_indicators_def EPOCH_DATA_REFERENCE_def valid_indicator_object)

lemma getEpochDataForYear_within:
  "applyLimits n (getEpochDataForYear year n) = getEpochDataForYear year n"
  unfolding getEpochDataForYear_def
proof (rule scan_epochs_prop[where P = "\<lambda>f. applyLimits n (f n) = f n"])
  show "applyLimits n (fallback_indicators n) = fallback_indicators n"
    by (cases n) (simp_all add: fallback_indicators_def applyLimits_def)
next
  fix kv assume "kv \<in> set EPOCH_DATA_REFERENCE"
  then show "applyLimits n (epoch_indicators (snd kv) n) = epoch_indicators (snd kv) n"
    unfolding EPOCH_DATA_REFERENCE_def
    by (cases n) (auto simp: applyLimits_def)
qed

subsection \<open>The five steps in closed form\<close>

text \<open>
  After step 1 no indicator is missing, so step 3 assigns nothing: the result is the
  caller's value, or the epoch value where the caller gave none, within the limits.
\<close>

lemma valid_not_missing: "valid_number v \<Longrightarrow> \<not> missing v"
  by (cases v) simp_all

lemma complete_steps_value:
  "complete_steps value_access s e td =
     (\<lambda>p. \<lparr>indicators =
             (\<lambda>n. applyLimits n (if missing (indicators (td p) n)
                                  then getEpochDataForYear (periodYear p s e) n
                                  else indicators (td p) n)),
           cth = Number (calculateCTHFromIndicators
                   (ArgObject (\<lambda>n. applyLimits n (if missing (indicators (td p) n)
                                                   then getEpochDataForYear (periodYear p s e) n
                                                   else indicators (td p) n))) None)\<rparr>)"
proof -
  let ?td2 = "recalculate_cth value_access (fill_from_epochs value_access s e td)"
  have "\<not> missing (read_indicator value_access ?td2 p n)" for p n
    using valid_not_missing[OF getEpochDataForYear_valid]
    by (simp add: value_access_simps recalculate_cth_value fill_from_epochs_value)
  then have "infer_missing value_access (prepare_deltaCTHs value_access ?td2) ?td2 = ?td2"
    by (rule infer_missing_complete)
  then show ?thesis
    unfolding complete_steps_def Let_def
    by (simp add: limit_all_value recalculate_cth_value fill_from_epochs_value fun_eq_iff)
qed

subsection \<open>The entry point in closed form\<close>

lemma supplied_copy:
  "indicators (ensure_period (Some (copy_period init p))) = supplied init p"
  by (auto simp: supplied_def ensure_period_def copy_period_def fun_eq_iff split: option.splits)

text \<open>The result of \<open>analyzeEventCTH\<close> in closed form.\<close>

lemma analyzeEventCTH_object:
  assumes "s \<le> e"
  shows "analyzeEventCTH (Number s) (Number e) (ArgObject init) =
     Inr (Some (\<lambda>p. \<lparr>indicators =
             (\<lambda>n. applyLimits n (if missing (supplied init p n)
                                  then getEpochDataForYear (periodYear p (Number s) (Number e)) n
                                  else supplied init p n)),
           cth = Number (calculateCTHFromIndicators
                   (ArgObject (\<lambda>n. applyLimits n (if missing (supplied init p n)
                                  then getEpochDataForYear (periodYear p (Number s) (Number e)) n
                                  else supplied init p n))) None)\<rparr>))"
  using assms
  by (simp add: analyzeEventCTH_def completeAndInferHistoricalData_def js_gt_def
      complete_steps_value ensure_periods_def supplied_copy cong: if_cong)

lemma analyzeEventCTH_cases:
  "analyzeEventCTH s e d = Inr None \<or>
   (\<exists>x y init. s = Number x \<and> e = Number y \<and> x \<le> y \<and> d = ArgObject init)"
  by (cases s; cases e; cases d) (auto simp: analyzeEventCTH_def js_gt_def)

lemma analyzeEventCTH_Some:
  assumes "analyzeEventCTH s e d = Inr (Some td)"
  obtains x y init where "s = Number x" "e = Number y" "x \<le> y" "d = ArgObject init"
  using assms analyzeEventCTH_cases[of s e d] by auto

section \<open>The normaliser\<close>


text \<open>
  Claim C2 says that \<open>normalize(rawValue, min, max)\<close> is 0.5 when \<open>min == max\<close>. The
  code returns 0 there: with the value 5 and both limits 3 the result is 0, not 0.5.
\<close>

theorem normalize_degenerate_counterexample:
  "normalizeIndicator (Number 5) 3 3 = 0 \<and> normalizeIndicator (Number 5) 3 3 \<noteq> 0.5"
  by (simp add: normalizeIndicator_def)

text \<open>
  Claim C2, amended: when \<open>min\<close> equals \<open>max\<close>, \<open>normalizeIndicator\<close> returns 0 for
  every value, valid or not (the guard \<open>if (max - min === 0) return 0\<close>).
\<close>

theorem normalize_degenerate_zero: "normalizeIndicator v m m = 0"
  by (cases v) (simp_all add: normalizeIndicator_def)

text \<open>
  Claim C8: for \<open>min < max\<close>, \<open>normalizeIndicator\<close> is monotonically non-decreasing
  on the values between \<open>min\<close> and \<open>max\<close>, it is 0 at \<open>min\<close> and 1 at \<open>max\<close>; and
  with the limits 0 and 100 the value -50 normalises to 0 and the value 150 to 1.
\<close>

theorem normalize_monotone:
  assumes "mn < mx"
  shows "(\<forall>v w. mn \<le> v \<and> v \<le> w \<and> w \<le> mx \<longrightarrow>
            normalizeIndicator (Number v) mn mx \<le> normalizeIndicator (Number w) mn mx)
       \<and> normalizeIndicator (Number mn) mn mx = 0
       \<and> normalizeIndicator (Number mx) mn mx = 1
       \<and> normalizeIndicator (Number (-50)) 0 100 = 0
       \<and> normalizeIndicator (Number 150) 0 100 = 1"
proof -
  have mono: "normalizeIndicator (Number v) mn mx \<le> normalizeIndicator (Number w) mn mx"
    if "mn \<le> v" "v \<le> w" "w \<le> mx" for v w
    using that assms by (simp add: normalizeIndicator_def Let_def divide_right_mono min_def max_def)
  have "normalizeIndicator (Number mn) mn mx = 0" "normalizeIndicator (Number mx) mn mx = 1"
    using assms by (simp_all add: normalizeIndicator_def Let_def)
  moreover have "normalizeIndicator (Number (-50)) 0 100 = 0"
    "normalizeIndicator (Number 150) 0 100 = 1"
    by (simp_all add: normalizeIndicator_def Let_def)
  ultimately show ?thesis using mono by blast
qed

text \<open>The limits 0 and 100, with the values 25 and 75.\<close>

theorem normalize_monotone_witness:
  "(0::real) < 100
   \<and> normalizeIndicator (Number 25) 0 100 \<le> normalizeIndicator (Number 75) 0 100
   \<and> normalizeIndicator (Number 0) 0 100 = 0
   \<and> normalizeIndicator (Number 100) 0 100 = 1
   \<and> normalizeIndicator (Number (-50)) 0 100 = 0
   \<and> normalizeIndicator (Number 150) 0 100 = 1"
proof -
  have h: "(0::real) < 100" by simp
  have "(0::real) \<le> 25 \<and> (25::real) \<le> 75 \<and> (75::real) \<le> 100" by simp
  with normalize_monotone[OF h] h show ?thesis by blast
qed

section \<open>The epoch lookup\<close>

lemma in_epoch_Number: "in_epoch (Number y) ep \<longleftrightarrow> startYear ep \<le> y \<and> y \<le> endYear ep"
  by (simp add: in_epoch_def js_ge_def js_le_def)

lemma scan_epochs_first:
  "(\<exists>i < length tbl. in_epoch year (snd (tbl ! i))
       \<and> (\<forall>j < i. \<not> in_epoch year (snd (tbl ! j)))
       \<and> scan_epochs tbl year = epoch_indicators (snd (tbl ! i)))
   \<or> ((\<forall>j < length tbl. \<not> in_epoch year (snd (tbl ! j)))
       \<and> scan_epochs tbl year = fallback_indicators)"
proof (induction tbl)
  case Nil
  then show ?case by simp
next
  case (Cons kv tbl)
  obtain key ep where kv: "kv = (key, ep)" by (cases kv)
  show ?case
  proof (cases "in_epoch year ep")
    case True
    then have "0 < length (kv # tbl) \<and> in_epoch year (snd ((kv # tbl) ! 0))
       \<and> (\<forall>j < 0. \<not> in_epoch year (snd ((kv # tbl) ! j)))
       \<and> scan_epochs (kv # tbl) year = epoch_indicators (snd ((kv # tbl) ! 0))"
      by (simp add: kv)
    then show ?thesis by blast
  next
    case False
    from Cons.IH show ?thesis
    proof (elim disjE exE conjE)
      fix i
      assume i: "i < length tbl" "in_epoch year (snd (tbl ! i))"
        "\<forall>j < i. \<not> in_epoch year (snd (tbl ! j))"
        "scan_epochs tbl year = epoch_indicators (snd (tbl ! i))"
      have "\<forall>j < Suc i. \<not> in_epoch year (snd ((kv # tbl) ! j))"
        using False i(3) kv by (auto simp: less_Suc_eq_0_disj)
      with i False have "Suc i < length (kv # tbl) \<and> in_epoch year (snd ((kv # tbl) ! Suc i))
       \<and> (\<forall>j < Suc i. \<not> in_epoch year (snd ((kv # tbl) ! j)))
       \<and> scan_epochs (kv # tbl) year = epoch_indicators (snd ((kv # tbl) ! Suc i))"
        by (simp add: kv)
      then show ?thesis by blast
    next
      assume "\<forall>j < length tbl. \<not> in_epoch year (snd (tbl ! j))"
        "scan_epochs tbl year = fallback_indicators"
      with False have "(\<forall>j < length (kv # tbl). \<not> in_epoch year (snd ((kv # tbl) ! j)))
       \<and> scan_epochs (kv # tbl) year = fallback_indicators"
        by (auto simp: less_Suc_eq_0_disj kv)
      then show ?thesis by blast
    qed
  qed
qed

text \<open>
  Claim C7: for every year, \<open>getEpochDataForYear\<close> returns the indicators of the first
  epoch of the table whose interval from \<open>startYear\<close> to \<open>endYear\<close> contains the year,
  and the hardcoded default object when no epoch contains it; it always returns an
  object with nine valid numbers. The default object is the literal at the end of the
  function, not the table's entry \<open>contemporary\<close>.
\<close>

theorem epoch_lookup_first_match:
  "((\<exists>i < length EPOCH_DATA_REFERENCE.
        in_epoch year (snd (EPOCH_DATA_REFERENCE ! i))
      \<and> (\<forall>j < i. \<not> in_epoch year (snd (EPOCH_DATA_REFERENCE ! j)))
      \<and> getEpochDataForYear year = epoch_indicators (snd (EPOCH_DATA_REFERENCE ! i)))
    \<or> ((\<forall>j < length EPOCH_DATA_REFERENCE. \<not> in_epoch year (snd (EPOCH_DATA_REFERENCE ! j)))
      \<and> getEpochDataForYear year = fallback_indicators))
   \<and> (\<forall>y ep. in_epoch (Number y) ep \<longleftrightarrow> startYear ep \<le> y \<and> y \<le> endYear ep)
   \<and> (\<forall>n. valid_number (getEpochDataForYear year n))"
  unfolding getEpochDataForYear_def
  using scan_epochs_first[of EPOCH_DATA_REFERENCE year] in_epoch_Number
    getEpochDataForYear_valid[of year]
  unfolding getEpochDataForYear_def by blast

lemma epoch_1777: "getEpochDataForYear (Number 1777) = indicator_object 1500 0.5 8 300 0.25 40 0.03 20 0.25"
  by (simp add: getEpochDataForYear_def EPOCH_DATA_REFERENCE_def in_epoch_Number)

lemma epoch_1811: "getEpochDataForYear (Number 1811) = indicator_object 3000 0.48 10 600 0.4 45 0.025 50 0.4"
  by (simp add: getEpochDataForYear_def EPOCH_DATA_REFERENCE_def in_epoch_Number)

text \<open>
  The year 2026 is after the last epoch and gets the default object; 1777 is in
  \<open>earlyModern\<close>; the year \<open>NaN\<close> is in no epoch.
\<close>

theorem epoch_lookup_first_match_witness:
  "getEpochDataForYear (Number 2026) = fallback_indicators
   \<and> valid_number (getEpochDataForYear (Number 2026) gdpPerCapita)
   \<and> getEpochDataForYear (Number 1777) = indicator_object 1500 0.5 8 300 0.25 40 0.03 20 0.25
   \<and> getEpochDataForYear NaN = fallback_indicators"
proof -
  have none: "\<not> in_epoch (Number 2026) (snd kv)" if "kv \<in> set EPOCH_DATA_REFERENCE" for kv
    using that by (auto simp: EPOCH_DATA_REFERENCE_def in_epoch_Number)
  have "\<not> (\<exists>i < length EPOCH_DATA_REFERENCE.
            in_epoch (Number 2026) (snd (EPOCH_DATA_REFERENCE ! i))
          \<and> (\<forall>j < i. \<not> in_epoch (Number 2026) (snd (EPOCH_DATA_REFERENCE ! j)))
          \<and> getEpochDataForYear (Number 2026) = epoch_indicators (snd (EPOCH_DATA_REFERENCE ! i)))"
    using none nth_mem by blast
  with epoch_lookup_first_match[of "Number 2026"]
  have "getEpochDataForYear (Number 2026) = fallback_indicators"
    and "valid_number (getEpochDataForYear (Number 2026) gdpPerCapita)"
    by blast+
  moreover have "getEpochDataForYear NaN = fallback_indicators"
    by (simp add: getEpochDataForYear_def EPOCH_DATA_REFERENCE_def in_epoch_def js_ge_def)
  ultimately show ?thesis using epoch_1777 by blast
qed

section \<open>The score\<close>




lemma calculateCTH_range:
  "0 \<le> calculateCTHFromIndicators a cw \<and> calculateCTHFromIndicators a cw \<le> 1"
  by (cases a) (simp_all add: calculateCTHFromIndicators_def Let_def)



section \<open>What the completed object holds\<close>

lemma applyLimits_idem: "applyLimits n (applyLimits n v) = applyLimits n v"
  by (cases v; cases n) (simp_all add: applyLimits_def)

lemma applyLimits_missing_iff: "missing (applyLimits n v) \<longleftrightarrow> missing v"
  by (cases v) (simp_all add: applyLimits_def Let_def)

lemma within_applyLimits: "within_limits n (applyLimits n (Number x))"
  by (cases n) (simp_all add: within_limits_def applyLimits_def)

lemma norm_of_applyLimits: "norm_of (\<lambda>n. applyLimits n (f n)) n = norm_of f n"
  by (cases "f n"; cases n) (simp_all add: norm_of_def applyLimits_def normalizeIndicator_def)

lemma calculateCTH_applyLimits:
  "calculateCTHFromIndicators (ArgObject (\<lambda>n. applyLimits n (f n))) cw
     = calculateCTHFromIndicators (ArgObject f) cw"
proof -
  have "weightedSum w (\<lambda>n. applyLimits n (f n)) = weightedSum w f" for w
    by (simp add: weightedSum_def E_val_def S_val_def A_val_def P_val_def norm_of_applyLimits)
  then show ?thesis
    by (simp add: calculateCTHFromIndicators_def Let_def cong: if_cong)
qed

lemma unit_interval_calculateCTH: "unit_interval (Number (calculateCTHFromIndicators a cw))"
  using calculateCTH_range[of a cw] by (simp add: unit_interval_def)

text \<open>The object that \<open>analyzeEventCTH\<close> returns, slot by slot.\<close>

lemma analyzeEventCTH_slots:
  assumes "analyzeEventCTH s e (ArgObject init) = Inr (Some td)"
  shows "indicators (td p) n =
           applyLimits n (if missing (supplied init p n)
                          then getEpochDataForYear (periodYear p s e) n
                          else supplied init p n)"
    and "cth (td p) = Number (calculateCTHFromIndicators (ArgObject (indicators (td p))) None)"
proof -
  from assms obtain x y where xy: "s = Number x" "e = Number y" "x \<le> y"
    by (rule analyzeEventCTH_Some)
  from assms have td: "td = (\<lambda>p. \<lparr>indicators =
             (\<lambda>n. applyLimits n (if missing (supplied init p n)
                                  then getEpochDataForYear (periodYear p s e) n
                                  else supplied init p n)),
           cth = Number (calculateCTHFromIndicators
                   (ArgObject (\<lambda>n. applyLimits n (if missing (supplied init p n)
                                  then getEpochDataForYear (periodYear p s e) n
                                  else supplied init p n))) None)\<rparr>)"
    unfolding xy analyzeEventCTH_object[OF xy(3)] by simp
  show "indicators (td p) n =
           applyLimits n (if missing (supplied init p n)
                          then getEpochDataForYear (periodYear p s e) n
                          else supplied init p n)"
    by (subst td) simp
  show "cth (td p) = Number (calculateCTHFromIndicators (ArgObject (indicators (td p))) None)"
    by (subst (1 2) td) simp
qed

lemma analyzeEventCTH_seed:
  assumes "analyzeEventCTH s e (ArgObject init) = Inr (Some td)"
    and "missing (supplied init p n)"
  shows "indicators (td p) n = getEpochDataForYear (periodYear p s e) n"
  using analyzeEventCTH_slots(1)[OF assms(1), of p n] assms(2)
  by (simp add: getEpochDataForYear_within)

text \<open>
  Claim C1 says that an indicator the caller left out for a period, while giving it for
  the period before and for the period after, gets the mean of the two neighbours from
  step 3. In the code step 1 has already put the epoch value into every missing slot, so
  the test of step 3, that the slot is still \<open>undefined\<close> or \<open>null\<close>, never holds: for
  every accepted input, a slot the caller left out holds the epoch value of the period's
  representative year in the result, whatever the neighbouring periods hold.
\<close>

theorem inference_never_applied:
  assumes "analyzeEventCTH s e (ArgObject init) = Inr (Some td)"
    and "missing (supplied init p n)"
  shows "indicators (td p) n = getEpochDataForYear (periodYear p s e) n"
  using assms by (rule analyzeEventCTH_seed)

lemma js_arith_Number:
  "js_add (Number a) (Number b) = Number (a + b)"
  "js_sub (Number a) (Number b) = Number (a - b)"
  "b \<noteq> 0 \<Longrightarrow> js_div (Number a) (Number b) = Number (a / b)"
  "js_floor (Number a) = Number (of_int \<lfloor>a\<rfloor>)"
  by (simp_all add: js_sub_def js_add_def js_div_def js_floor_def js_arith_def)

lemma epoch_1788: "getEpochDataForYear (Number 1788) = indicator_object 1500 0.5 8 300 0.25 40 0.03 20 0.25"
  by (simp add: getEpochDataForYear_def EPOCH_DATA_REFERENCE_def in_epoch_Number)

text \<open>
  The years 1789 and 1799, \<open>gdpPerCapita\<close> 1000 for \<open>before\<close> and 3000 for
  \<open>during\<close>: the mean is 2000, and the result holds 1500 for \<open>prelude\<close>, the value of
  the epoch \<open>earlyModern\<close> that contains 1788.
\<close>

theorem inference_never_applied_witness:
  "supplied gdp_around_prelude before gdpPerCapita = Number 1000
   \<and> supplied gdp_around_prelude during gdpPerCapita = Number 3000
   \<and> missing (supplied gdp_around_prelude prelude gdpPerCapita)
   \<and> js_div (js_add (Number 1000) (Number 3000)) (Number 2) = Number 2000
   \<and> output_indicator (analyzeEventCTH (Number 1789) (Number 1799) (ArgObject gdp_around_prelude))
        prelude gdpPerCapita = Some (Number 1500)"
proof -
  have sup: "supplied gdp_around_prelude before gdpPerCapita = Number 1000"
    "supplied gdp_around_prelude during gdpPerCapita = Number 3000"
    "missing (supplied gdp_around_prelude prelude gdpPerCapita)"
    by (simp_all add: supplied_def gdp_around_prelude_def ensure_period_def phase_with_def
        empty_object_def)
  have mean: "js_div (js_add (Number 1000) (Number 3000)) (Number 2) = Number 2000"
    by (simp add: js_div_def js_add_def js_arith_def)
  obtain td where td: "analyzeEventCTH (Number 1789) (Number 1799) (ArgObject gdp_around_prelude)
      = Inr (Some td)"
    using analyzeEventCTH_object[of 1789 1799 gdp_around_prelude] by simp
  have "indicators (td prelude) gdpPerCapita
          = getEpochDataForYear (periodYear prelude (Number 1789) (Number 1799)) gdpPerCapita"
    using td sup(3) by (rule inference_never_applied)
  then have "indicators (td prelude) gdpPerCapita = Number 1500"
    by (simp add: js_arith_Number epoch_1788)
  with td sup mean show ?thesis by (simp add: output_indicator_def)
qed

text \<open>
  Claim C3 says that every indicator value of the result lies within the limits of its
  indicator. A \<open>NaN\<close> that the caller gives is neither replaced by step 1 nor changed
  by \<open>applyLimits\<close>, which returns an invalid value as it is: with \<open>gdpPerCapita\<close>
  given as \<open>NaN\<close> for \<open>before\<close>, the result holds \<open>NaN\<close> there.
\<close>

theorem clamping_counterexample:
  "output_indicator (analyzeEventCTH (Number 1789) (Number 1799) (ArgObject gdp_nan))
     before gdpPerCapita = Some NaN
   \<and> \<not> within_limits gdpPerCapita NaN"
proof -
  have sup: "supplied gdp_nan before gdpPerCapita = NaN"
    by (simp add: supplied_def gdp_nan_def ensure_period_def phase_with_def)
  obtain td where td: "analyzeEventCTH (Number 1789) (Number 1799) (ArgObject gdp_nan) = Inr (Some td)"
    using analyzeEventCTH_object[of 1789 1799 gdp_nan] by simp
  have "indicators (td before) gdpPerCapita = NaN"
    using analyzeEventCTH_slots(1)[OF td, of before gdpPerCapita] sup
    by (simp add: applyLimits_def)
  with td show ?thesis by (simp add: output_indicator_def within_limits_def)
qed

lemma applyLimits_invalid: "\<not> valid_number v \<Longrightarrow> applyLimits n v = v"
  by (cases v) (simp_all add: applyLimits_def)

lemma norm_of_invalid: "\<not> valid_number (inds n) \<Longrightarrow> norm_of inds n = 0"
  by (cases "inds n") (simp_all add: norm_of_def normalizeIndicator_def)

text \<open>
  Claim C3, amended: for every accepted input, every score of the result lies between 0
  and 1, and every indicator value lies within the limits of its indicator, except in
  the slots where the caller gave a value that is neither missing nor a valid number
  (\<open>NaN\<close>, a string, a boolean, an object): these hold the caller's value, unchanged.
\<close>

theorem clamping_invariant:
  assumes "analyzeEventCTH s e (ArgObject init) = Inr (Some td)"
  shows "unit_interval (cth (td p))
       \<and> (if missing (supplied init p n) \<or> valid_number (supplied init p n)
          then within_limits n (indicators (td p) n)
          else indicators (td p) n = supplied init p n)"
proof -
  have score: "unit_interval (cth (td p))"
    using analyzeEventCTH_slots(2)[OF assms, of p] by (simp add: unit_interval_calculateCTH)
  have slot: "indicators (td p) n =
           applyLimits n (if missing (supplied init p n)
                          then getEpochDataForYear (periodYear p s e) n
                          else supplied init p n)"
    by (rule analyzeEventCTH_slots(1)[OF assms])
  obtain x where seed: "getEpochDataForYear (periodYear p s e) n = Number x"
    using getEpochDataForYear_valid[of "periodYear p s e" n]
    by (cases "getEpochDataForYear (periodYear p s e) n") simp_all
  show ?thesis
  proof (cases "missing (supplied init p n)")
    case True
    then show ?thesis using slot score seed by (simp add: within_applyLimits)
  next
    case False
    show ?thesis
    proof (cases "valid_number (supplied init p n)")
      case True
      then obtain y where "supplied init p n = Number y"
        by (cases "supplied init p n") simp_all
      then show ?thesis using slot score by (simp add: within_applyLimits)
    next
      case invalid: False
      then show ?thesis using False slot score by (simp add: applyLimits_invalid)
    qed
  qed
qed

text \<open>
  The years 1789 and 1799. With \<open>gdpPerCapita\<close> given as \<open>NaN\<close> for \<open>before\<close>, the
  result holds \<open>NaN\<close> there, the \<open>giniIndex\<close> of \<open>before\<close> is the value 0.5 of the
  epoch \<open>earlyModern\<close>, and the score of \<open>before\<close> counts \<open>gdpPerCapita\<close> as 0. With
  \<open>gdpPerCapita\<close> given as the string \<open>'abc'\<close>, the result holds that string.
\<close>

theorem clamping_invariant_witness:
  "output_cth (analyzeEventCTH (Number 1789) (Number 1799) (ArgObject gdp_nan)) before
     = Some (Number (113865311357 / 448206184800))
   \<and> unit_interval (Number (113865311357 / 448206184800))
   \<and> output_indicator (analyzeEventCTH (Number 1789) (Number 1799) (ArgObject gdp_nan))
        before giniIndex = Some (Number 0.5)
   \<and> within_limits giniIndex (Number 0.5)
   \<and> output_indicator (analyzeEventCTH (Number 1789) (Number 1799) (ArgObject gdp_nan))
        before gdpPerCapita = Some NaN
   \<and> output_indicator (analyzeEventCTH (Number 1789) (Number 1799) (ArgObject gdp_text))
        before gdpPerCapita = Some (Other None ''abc'')"
proof -
  obtain td where td: "analyzeEventCTH (Number 1789) (Number 1799) (ArgObject gdp_nan) = Inr (Some td)"
    using analyzeEventCTH_object[of 1789 1799 gdp_nan] by simp
  obtain tx where tx: "analyzeEventCTH (Number 1789) (Number 1799) (ArgObject gdp_text) = Inr (Some tx)"
    using analyzeEventCTH_object[of 1789 1799 gdp_text] by simp
  have sup: "missing (supplied gdp_nan before giniIndex)"
    "supplied gdp_nan before gdpPerCapita = NaN"
    "supplied gdp_text before gdpPerCapita = Other None ''abc''"
    by (simp_all add: supplied_def gdp_nan_def gdp_text_def ensure_period_def phase_with_def
        empty_object_def)
  from clamping_invariant[OF td, of before giniIndex] sup(1)
  have a: "unit_interval (cth (td before))" "within_limits giniIndex (indicators (td before) giniIndex)"
    by simp_all
  from clamping_invariant[OF td, of before gdpPerCapita] sup(2)
  have n: "indicators (td before) gdpPerCapita = NaN"
    by simp
  from clamping_invariant[OF tx, of before gdpPerCapita] sup(3)
  have t: "indicators (tx before) gdpPerCapita = Other None ''abc''"
    by simp
  have inds: "indicators (td before) =
      (indicator_object 1500 0.5 8 300 0.25 40 0.03 20 0.25)(gdpPerCapita := NaN)"
  proof
    fix n
    show "indicators (td before) n =
      ((indicator_object 1500 0.5 8 300 0.25 40 0.03 20 0.25)(gdpPerCapita := NaN)) n"
      using analyzeEventCTH_slots(1)[OF td, of before n]
      by (cases n)
         (simp_all add: supplied_def gdp_nan_def ensure_period_def phase_with_def empty_object_def
            js_arith_Number epoch_1777 applyLimits_def)
  qed
  have "cth (td before) = Number (calculateCTHFromIndicators (ArgObject (indicators (td before))) None)"
    by (rule analyzeEventCTH_slots(2)[OF td])
  also have "\<dots> = Number (113865311357 / 448206184800)"
    unfolding inds
    by (simp add: calculateCTHFromIndicators_def weightedSum_def totalWeight_def
        DEFAULT_CTH_WEIGHTS_def E_val_def S_val_def A_val_def P_val_def average_def norm_of_def
        normalizeIndicator_def)
  finally have c: "cth (td before) = Number (113865311357 / 448206184800)" .
  have g: "indicators (td before) giniIndex = Number 0.5"
    unfolding inds by simp
  from a c g n t td tx show ?thesis by (simp add: output_cth_def output_indicator_def)
qed

text \<open>
  Claim C4 says that invalid per-indicator data is absorbed by the fallback to the epoch
  values. Only a missing value is: with \<open>gdpPerCapita\<close> given as the string \<open>'abc'\<close>
  for \<open>before\<close> and the years 1789 and 1799, the result holds that string, not the value
  1500 of the epoch of the year 1777.
\<close>

theorem invalid_data_kept_counterexample:
  "output_indicator (analyzeEventCTH (Number 1789) (Number 1799) (ArgObject gdp_text))
     before gdpPerCapita = Some (Other None ''abc'')
   \<and> periodYear before (Number 1789) (Number 1799) = Number 1777
   \<and> getEpochDataForYear (Number 1777) gdpPerCapita = Number 1500"
proof -
  have sup: "supplied gdp_text before gdpPerCapita = Other None ''abc''"
    by (simp add: supplied_def gdp_text_def ensure_period_def phase_with_def)
  obtain td where td: "analyzeEventCTH (Number 1789) (Number 1799) (ArgObject gdp_text) = Inr (Some td)"
    using analyzeEventCTH_object[of 1789 1799 gdp_text] by simp
  have "indicators (td before) gdpPerCapita = Other None ''abc''"
    using analyzeEventCTH_slots(1)[OF td, of before gdpPerCapita] sup
    by (simp add: applyLimits_def)
  with td show ?thesis by (simp add: output_indicator_def js_arith_Number epoch_1777)
qed

text \<open>
  Claim C4, amended: \<open>analyzeEventCTH\<close> returns \<open>null\<close> exactly when a year is not a
  valid number, the start year is greater than the end year, or the data argument is not
  an object; no exception leaves it; and with valid, ordered years and an object it
  returns a completed object, whatever the indicator slots hold. In that object a
  missing indicator (\<open>undefined\<close> or \<open>null\<close>) is replaced by the epoch value of the
  period's representative year; an indicator that is neither missing nor a valid number
  is kept as the caller gave it and counts as 0 in the score; and the score of every
  period is the score of the indicators that the object holds for it.
\<close>

theorem structural_errors_only:
  "(analyzeEventCTH s e d = Inr None \<longleftrightarrow>
      \<not> valid_number s \<or> \<not> valid_number e \<or> js_gt s e \<or> not_an_object d)
   \<and> (\<forall>err. analyzeEventCTH s e d \<noteq> Inl err)
   \<and> (valid_number s \<and> valid_number e \<and> \<not> js_gt s e \<and> \<not> not_an_object d \<longrightarrow>
        (\<exists>td. analyzeEventCTH s e d = Inr (Some td)))
   \<and> (\<forall>init td p n. d = ArgObject init \<and> analyzeEventCTH s e d = Inr (Some td) \<longrightarrow>
          (missing (supplied init p n) \<longrightarrow>
             indicators (td p) n = getEpochDataForYear (periodYear p s e) n)
        \<and> (\<not> missing (supplied init p n) \<and> \<not> valid_number (supplied init p n) \<longrightarrow>
             indicators (td p) n = supplied init p n \<and> norm_of (indicators (td p)) n = 0)
        \<and> cth (td p) = Number (calculateCTHFromIndicators (ArgObject (indicators (td p))) None))"
proof -
  have content: "(missing (supplied init p n) \<longrightarrow>
             indicators (td p) n = getEpochDataForYear (periodYear p s e) n)
        \<and> (\<not> missing (supplied init p n) \<and> \<not> valid_number (supplied init p n) \<longrightarrow>
             indicators (td p) n = supplied init p n \<and> norm_of (indicators (td p)) n = 0)
        \<and> cth (td p) = Number (calculateCTHFromIndicators (ArgObject (indicators (td p))) None)"
    if run: "analyzeEventCTH s e (ArgObject init) = Inr (Some td)" for init td p n
  proof (intro conjI impI)
    assume "missing (supplied init p n)"
    with run show "indicators (td p) n = getEpochDataForYear (periodYear p s e) n"
      by (rule analyzeEventCTH_seed)
  next
    assume inv: "\<not> missing (supplied init p n) \<and> \<not> valid_number (supplied init p n)"
    then show kept: "indicators (td p) n = supplied init p n"
      using analyzeEventCTH_slots(1)[OF run, of p n] by (simp add: applyLimits_invalid)
    from inv kept show "norm_of (indicators (td p)) n = 0"
      by (simp add: norm_of_invalid)
  next
    show "cth (td p) = Number (calculateCTHFromIndicators (ArgObject (indicators (td p))) None)"
      by (rule analyzeEventCTH_slots(2)[OF run])
  qed
  have outcome: "(analyzeEventCTH s e d = Inr None \<longleftrightarrow>
      \<not> valid_number s \<or> \<not> valid_number e \<or> js_gt s e \<or> not_an_object d)
   \<and> (\<forall>err. analyzeEventCTH s e d \<noteq> Inl err)
   \<and> (valid_number s \<and> valid_number e \<and> \<not> js_gt s e \<and> \<not> not_an_object d \<longrightarrow>
        (\<exists>td. analyzeEventCTH s e d = Inr (Some td)))"
  proof (cases "\<exists>x y init. s = Number x \<and> e = Number y \<and> x \<le> y \<and> d = ArgObject init")
    case True
    then obtain x y init where *: "s = Number x" "e = Number y" "x \<le> y" "d = ArgObject init"
      by blast
    show ?thesis
      unfolding * analyzeEventCTH_object[OF *(3)] using *(3) by (simp add: js_gt_def)
  next
    case False
    then have null: "analyzeEventCTH s e d = Inr None"
      using analyzeEventCTH_cases[of s e d] by blast
    have "\<not> valid_number s \<or> \<not> valid_number e \<or> js_gt s e \<or> not_an_object d"
      using False by (cases s; cases e; cases d) (auto simp: js_gt_def)
    with null show ?thesis by simp
  qed
  from outcome content show ?thesis by blast
qed

text \<open>
  Inverted years, a \<open>NaN\<close> start year, a string as the end year and a \<open>null\<close> data
  argument give \<open>null\<close>. With the years 1789 and 1799 and \<open>gdpPerCapita\<close> given as
  \<open>NaN\<close> for \<open>before\<close>, the result is an object: it holds \<open>NaN\<close> for that slot, and
  for the \<open>giniIndex\<close> of \<open>before\<close>, which is missing, the value 0.5 of the epoch of
  the year 1777.
\<close>

theorem structural_errors_only_witness:
  "analyzeEventCTH (Number 1799) (Number 1789) (ArgObject during_only) = Inr None
   \<and> analyzeEventCTH NaN (Number 1789) (ArgObject during_only) = Inr None
   \<and> analyzeEventCTH (Number 1789) (Other (Some 1799) ''1799'') (ArgObject during_only) = Inr None
   \<and> analyzeEventCTH (Number 1789) (Number 1799) ArgNull = Inr None
   \<and> output_indicator (analyzeEventCTH (Number 1789) (Number 1799) (ArgObject gdp_nan))
        before gdpPerCapita = Some NaN
   \<and> output_indicator (analyzeEventCTH (Number 1789) (Number 1799) (ArgObject gdp_nan))
        before giniIndex = Some (Number 0.5)"
proof -
  have "js_gt (Number 1799) (Number 1789)" by (simp add: js_gt_def)
  with structural_errors_only[of "Number 1799" "Number 1789" "ArgObject during_only"]
  have a: "analyzeEventCTH (Number 1799) (Number 1789) (ArgObject during_only) = Inr None"
    by blast
  have "\<not> valid_number NaN" by simp
  with structural_errors_only[of NaN "Number 1789" "ArgObject during_only"]
  have b: "analyzeEventCTH NaN (Number 1789) (ArgObject during_only) = Inr None"
    by blast
  have "\<not> valid_number (Other (Some 1799) ''1799'')" by simp
  with structural_errors_only[of "Number 1789" "Other (Some 1799) ''1799''" "ArgObject during_only"]
  have c: "analyzeEventCTH (Number 1789) (Other (Some 1799) ''1799'') (ArgObject during_only)
             = Inr None"
    by blast
  have "not_an_object (ArgNull :: raw_temporalData jsarg)" by simp
  with structural_errors_only[of "Number 1789" "Number 1799" ArgNull]
  have d: "analyzeEventCTH (Number 1789) (Number 1799) ArgNull = Inr None"
    by blast
  have "valid_number (Number 1789) \<and> valid_number (Number 1799)
          \<and> \<not> js_gt (Number 1789) (Number 1799) \<and> \<not> not_an_object (ArgObject gdp_nan)"
    by (simp add: js_gt_def)
  with structural_errors_only[of "Number 1789" "Number 1799" "ArgObject gdp_nan"]
  obtain td where td: "analyzeEventCTH (Number 1789) (Number 1799) (ArgObject gdp_nan) = Inr (Some td)"
    by blast
  have sup: "\<not> missing (supplied gdp_nan before gdpPerCapita)
      \<and> \<not> valid_number (supplied gdp_nan before gdpPerCapita)"
    "supplied gdp_nan before gdpPerCapita = NaN"
    "missing (supplied gdp_nan before giniIndex)"
    by (simp_all add: supplied_def gdp_nan_def ensure_period_def phase_with_def empty_object_def)
  from structural_errors_only[of "Number 1789" "Number 1799" "ArgObject gdp_nan"] td sup(1,3)
  have "indicators (td before) gdpPerCapita = supplied gdp_nan before gdpPerCapita"
    and "indicators (td before) giniIndex
           = getEpochDataForYear (periodYear before (Number 1789) (Number 1799)) giniIndex"
    by blast+
  then have e: "indicators (td before) gdpPerCapita = NaN"
    and f: "indicators (td before) giniIndex = Number 0.5"
    by (simp_all add: sup(2) js_arith_Number epoch_1777)
  from a b c d e f td show ?thesis by (simp add: output_indicator_def)
qed

lemma supplied_as_input: "supplied (as_input td) p n = indicators (td p) n"
  by (simp add: supplied_def as_input_def ensure_period_def)

lemma result_not_missing:
  assumes "analyzeEventCTH s e (ArgObject init) = Inr (Some td)"
  shows "\<not> missing (indicators (td p) n)"
proof -
  have "\<not> missing (if missing (supplied init p n)
                     then getEpochDataForYear (periodYear p s e) n
                     else supplied init p n)"
    using valid_not_missing[OF getEpochDataForYear_valid[of "periodYear p s e" n]] by simp
  then show ?thesis
    unfolding analyzeEventCTH_slots(1)[OF assms] applyLimits_missing_iff .
qed

text \<open>
  Claim C5: when \<open>analyzeEventCTH\<close> has returned a completed object, running it again
  on that object with the same years returns an object with the same indicator values
  and the same scores. Over the reals the two objects are equal, with no tolerance.
\<close>

theorem pipeline_idempotent:
  assumes "analyzeEventCTH s e d = Inr (Some td)"
  shows "analyzeEventCTH s e (ArgObject (as_input td)) = Inr (Some td)"
proof -
  from assms obtain x y init where xy: "s = Number x" "e = Number y" "x \<le> y"
    and d: "d = ArgObject init"
    by (rule analyzeEventCTH_Some)
  note first = assms[unfolded d]
  obtain td' where second: "analyzeEventCTH s e (ArgObject (as_input td)) = Inr (Some td')"
    unfolding xy using analyzeEventCTH_object[OF xy(3), of "as_input td"] by simp
  have inds: "indicators (td' p) = indicators (td p)" for p
  proof
    fix n
    have "indicators (td' p) n = applyLimits n (indicators (td p) n)"
      using analyzeEventCTH_slots(1)[OF second, of p n] result_not_missing[OF first, of p n]
      by (simp add: supplied_as_input)
    also have "\<dots> = indicators (td p) n"
      unfolding analyzeEventCTH_slots(1)[OF first] by (rule applyLimits_idem)
    finally show "indicators (td' p) n = indicators (td p) n" .
  qed
  have "cth (td' p) = cth (td p)" for p
    unfolding analyzeEventCTH_slots(2)[OF second] analyzeEventCTH_slots(2)[OF first] inds ..
  with inds have "td' p = td p" for p
    by (simp add: phase.equality)
  then have "td' = td" by (rule ext)
  with second show ?thesis by simp
qed

text \<open>The years 1789 and 1799 with only \<open>during\<close> given: a first run, then a second.\<close>

theorem pipeline_idempotent_witness:
  "(case analyzeEventCTH (Number 1789) (Number 1799) (ArgObject during_only) of
      Inr (Some td) \<Rightarrow>
        analyzeEventCTH (Number 1789) (Number 1799) (ArgObject (as_input td)) = Inr (Some td)
    | _ \<Rightarrow> False)"
proof -
  obtain td where td: "analyzeEventCTH (Number 1789) (Number 1799) (ArgObject during_only) = Inr (Some td)"
    using analyzeEventCTH_object[of 1789 1799 during_only] by simp
  from pipeline_idempotent[OF td] td show ?thesis by simp
qed

lemma list_all_indicators: "list_all P allIndicatorNames \<longleftrightarrow> (\<forall>n. P n)"
  by (simp add: list_all_iff set_allIndicatorNames)

text \<open>
  Claim C6: with the years 1789 and 1799, all nine \<open>during\<close> indicators given and no
  indicator given for the other four periods, the result holds for \<open>before\<close> the epoch
  values of the year 1777 (start year minus 12) and for \<open>after\<close> those of the year 1811
  (end year plus 12), all five scores lie between 0 and 1, the \<open>during\<close> indicators are
  the given ones within their limits, and the \<open>during\<close> score is the score of the
  given indicators.
\<close>

theorem seed_scenario:
  assumes "fully_specified init during"
    and "nothing_specified init before" and "nothing_specified init prelude"
    and "nothing_specified init transition" and "nothing_specified init after"
  shows "\<exists>td. analyzeEventCTH (Number 1789) (Number 1799) (ArgObject init) = Inr (Some td)
     \<and> periodYear before (Number 1789) (Number 1799) = Number 1777
     \<and> periodYear after (Number 1789) (Number 1799) = Number 1811
     \<and> indicators (td before) = getEpochDataForYear (Number 1777)
     \<and> indicators (td after) = getEpochDataForYear (Number 1811)
     \<and> indicators (td before) = indicator_object 1500 0.5 8 300 0.25 40 0.03 20 0.25
     \<and> indicators (td after) = indicator_object 3000 0.48 10 600 0.4 45 0.025 50 0.4
     \<and> (\<forall>p. unit_interval (cth (td p)))
     \<and> (\<forall>n. indicators (td during) n = applyLimits n (supplied init during n))
     \<and> cth (td during)
          = Number (calculateCTHFromIndicators (ArgObject (supplied init during)) None)"
proof -
  obtain td where td: "analyzeEventCTH (Number 1789) (Number 1799) (ArgObject init) = Inr (Some td)"
    using analyzeEventCTH_object[of 1789 1799 init] by simp
  have b: "indicators (td before) = getEpochDataForYear (Number 1777)"
  proof
    fix n
    have "missing (supplied init before n)"
      using assms(2) by (simp add: nothing_specified_def list_all_indicators)
    with td show "indicators (td before) n = getEpochDataForYear (Number 1777) n"
      by (simp add: analyzeEventCTH_seed js_arith_Number)
  qed
  have a: "indicators (td after) = getEpochDataForYear (Number 1811)"
  proof
    fix n
    have "missing (supplied init after n)"
      using assms(5) by (simp add: nothing_specified_def list_all_indicators)
    with td show "indicators (td after) n = getEpochDataForYear (Number 1811) n"
      by (simp add: analyzeEventCTH_seed js_arith_Number)
  qed
  have scores: "unit_interval (cth (td p))" for p
    unfolding analyzeEventCTH_slots(2)[OF td] by (rule unit_interval_calculateCTH)
  have d: "indicators (td during) n = applyLimits n (supplied init during n)" for n
  proof -
    have "\<not> missing (supplied init during n)"
      using assms(1) by (simp add: fully_specified_def list_all_indicators)
    then show ?thesis using analyzeEventCTH_slots(1)[OF td, of during n] by simp
  qed
  then have "indicators (td during) = (\<lambda>n. applyLimits n (supplied init during n))"
    by (simp add: fun_eq_iff)
  then have "cth (td during)
          = Number (calculateCTHFromIndicators (ArgObject (supplied init during)) None)"
    unfolding analyzeEventCTH_slots(2)[OF td, of during]
    by (simp add: calculateCTH_applyLimits)
  with td a b scores d show ?thesis
    by (simp add: epoch_1777 epoch_1811 js_arith_Number)
qed

text \<open>The \<open>during\<close> indicators of the repository's example, and nothing else.\<close>

theorem seed_scenario_witness:
  "fully_specified during_only during
   \<and> nothing_specified during_only before \<and> nothing_specified during_only prelude
   \<and> nothing_specified during_only transition \<and> nothing_specified during_only after
   \<and> output_indicator (analyzeEventCTH (Number 1789) (Number 1799) (ArgObject during_only))
        before gdpPerCapita = Some (Number 1500)
   \<and> output_indicator (analyzeEventCTH (Number 1789) (Number 1799) (ArgObject during_only))
        after gdpPerCapita = Some (Number 3000)
   \<and> output_indicator (analyzeEventCTH (Number 1789) (Number 1799) (ArgObject during_only))
        during gdpPerCapita = Some (Number 1800)
   \<and> output_cth (analyzeEventCTH (Number 1789) (Number 1799) (ArgObject during_only)) during
        = Some (Number (32573348768927 / 132220824516000))"
proof -
  have sup: "supplied during_only p = (if p = during then example_during else empty_object)" for p
    by (simp add: supplied_def during_only_def ensure_period_def phase_with_def fun_eq_iff)
  have h: "fully_specified during_only during"
    "nothing_specified during_only before" "nothing_specified during_only prelude"
    "nothing_specified during_only transition" "nothing_specified during_only after"
    by (simp_all add: fully_specified_def nothing_specified_def sup allIndicatorNames_def
        example_during_def empty_object_def)
  from seed_scenario[OF h] obtain td where
    td: "analyzeEventCTH (Number 1789) (Number 1799) (ArgObject during_only) = Inr (Some td)"
    and b: "indicators (td before) = indicator_object 1500 0.5 8 300 0.25 40 0.03 20 0.25"
    and a: "indicators (td after) = indicator_object 3000 0.48 10 600 0.4 45 0.025 50 0.4"
    and d: "\<forall>n. indicators (td during) n = applyLimits n (supplied during_only during n)"
    and c: "cth (td during)
          = Number (calculateCTHFromIndicators (ArgObject (supplied during_only during)) None)"
    by blast
  have "calculateCTHFromIndicators (ArgObject example_during) None
          = 32573348768927 / 132220824516000"
    by (simp add: calculateCTHFromIndicators_def weightedSum_def totalWeight_def
        DEFAULT_CTH_WEIGHTS_def E_val_def S_val_def A_val_def P_val_def average_def norm_of_def
        normalizeIndicator_def example_during_def)
  with c have c': "cth (td during) = Number (32573348768927 / 132220824516000)"
    by (simp add: sup)
  have d': "indicators (td during) gdpPerCapita = Number 1800"
    using d by (simp add: sup example_during_def applyLimits_def)
  from h td a b c' d' show ?thesis
    by (simp add: output_indicator_def output_cth_def)
qed

section \<open>The store\<close>

text \<open>
  The copies that \<open>analyzeEventCTH\<close> makes are new objects, and the assignments of the
  five steps go to the objects that the new data object refers to.
\<close>

lemma lookup_update:
  "lookup (st[a := ob]) b = (if b = a \<and> a < length st then Some ob else lookup st b)"
  by (simp add: lookup_def)

lemma lookup_append_left: "a < length st \<Longrightarrow> lookup (st @ xs) a = lookup st a"
  by (simp add: lookup_def nth_append)

lemma lookup_append_right: "lookup (st @ xs) (length st + k) = lookup xs k"
  by (simp add: lookup_def nth_append)

text \<open>An assignment to an indicator or to a score changes no reference.\<close>

lemma refs_write_indicator:
  "phase_ref (st_write_indicator d p n v st) d' q = phase_ref st d' q"
  "indicators_ref (st_write_indicator d p n v st) d' q = indicators_ref st d' q"
  by (auto simp: st_write_indicator_def phase_ref_def indicators_ref_def lookup_update
      split: option.splits obj.splits)

lemma refs_write_cth:
  "phase_ref (st_write_cth d p v st) d' q = phase_ref st d' q"
  "indicators_ref (st_write_cth d p v st) d' q = indicators_ref st d' q"
  by (auto simp: st_write_cth_def phase_ref_def indicators_ref_def lookup_update
      split: option.splits obj.splits)

lemma refers_from_write:
  "refers_from base (st_write_indicator d p n v st) d' = refers_from base st d'"
  "refers_from base (st_write_cth d p v st) d' = refers_from base st d'"
  by (simp_all add: refers_from_def refs_write_indicator refs_write_cth)

lemma take_write_indicator:
  "refers_from base st d \<Longrightarrow> take base (st_write_indicator d p n v st) = take base st"
  by (auto simp: st_write_indicator_def refers_from_def split: option.splits obj.splits)

lemma take_write_cth:
  "refers_from base st d \<Longrightarrow> take base (st_write_cth d p v st) = take base st"
  by (auto simp: st_write_cth_def refers_from_def split: option.splits obj.splits)

lemma length_write:
  "length (st_write_indicator d p n v st) = length st"
  "length (st_write_cth d p v st) = length st"
  by (auto simp: st_write_indicator_def st_write_cth_def split: option.splits obj.splits)

text \<open>What every assignment of the five steps preserves, the five steps preserve.\<close>

lemma fold_preserves: "(\<And>x s. J s \<Longrightarrow> J (f x s)) \<Longrightarrow> J s \<Longrightarrow> J (fold f xs s)"
  by (induction xs arbitrary: s) simp_all

lemma complete_steps_preserves:
  assumes wi: "\<And>p n v td. J td \<Longrightarrow> J (write_indicator A p n v td)"
    and wc: "\<And>p v td. J td \<Longrightarrow> J (write_cth A p v td)"
    and start: "J td"
  shows "J (complete_steps A s e td)"
proof -
  have fill_ind: "J (fill_indicator A ep p n td)" if "J td" for ep p n td
    using that by (simp add: fill_indicator_def wi)
  have fill_per: "J (fill_period A s e p td)" if "J td" for p td
    unfolding fill_period_def Let_def
    using fill_ind that by (rule fold_preserves[where J = J])
  have fill: "J (fill_from_epochs A s e td)" if "J td" for td
    unfolding fill_from_epochs_def
    using fill_per that by (rule fold_preserves[where J = J])
  have score_per: "J (score_period A p td)" if "J td" for p td
    using that by (simp add: score_period_def wc)
  have score: "J (recalculate_cth A td)" if "J td" for td
    unfolding recalculate_cth_def
    using score_per that by (rule fold_preserves[where J = J])
  have infer_ind: "J (infer_indicator A ds i n td)" if "J td" for ds i n td
    using that by (simp add: infer_indicator_def Let_def wi)
  have infer_per: "J (infer_period A ds i td)" if "J td" for ds i td
    unfolding infer_period_def
    using infer_ind that by (rule fold_preserves[where J = J])
  have infer_pass: "J (infer_pass A ds k td)" if "J td" for ds k td
    unfolding infer_pass_def
    using infer_per that by (rule fold_preserves[where J = J])
  have infer: "J (infer_missing A ds td)" if "J td" for ds td
    unfolding infer_missing_def
    using infer_pass that by (rule fold_preserves[where J = J])
  have lim_ind: "J (limit_indicator A p n td)" if "J td" for p n td
    using that by (simp add: limit_indicator_def wi)
  have lim_per: "J (limit_period A p td)" if "J td" for p td
    unfolding limit_period_def
    using lim_ind that by (rule fold_preserves[where J = J])
  have lim: "J (limit_all A td)" if "J td" for td
    unfolding limit_all_def
    using lim_per that by (rule fold_preserves[where J = J])
  show ?thesis
    unfolding complete_steps_def Let_def
    by (rule score, rule lim, rule infer, rule score, rule fill, rule start)
qed

lemma complete_steps_frame:
  assumes "refers_from base st d"
  shows "refers_from base (complete_steps (store_access d) s e st) d
       \<and> take base (complete_steps (store_access d) s e st) = take base st
       \<and> length (complete_steps (store_access d) s e st) = length st"
proof (rule complete_steps_preserves[where J = "\<lambda>st'. refers_from base st' d
       \<and> take base st' = take base st \<and> length st' = length st"])
  fix p n v td
  assume "refers_from base td d \<and> take base td = take base st \<and> length td = length st"
  then show "refers_from base (write_indicator (store_access d) p n v td) d
       \<and> take base (write_indicator (store_access d) p n v td) = take base st
       \<and> length (write_indicator (store_access d) p n v td) = length st"
    by (simp add: store_access_def refers_from_write take_write_indicator length_write)
next
  fix p v td
  assume "refers_from base td d \<and> take base td = take base st \<and> length td = length st"
  then show "refers_from base (write_cth (store_access d) p v td) d
       \<and> take base (write_cth (store_access d) p v td) = take base st
       \<and> length (write_cth (store_access d) p v td) = length st"
    by (simp add: store_access_def refers_from_write take_write_cth length_write)
next
  show "refers_from base st d \<and> take base st = take base st \<and> length st = length st"
    using assms by simp
qed

text \<open>The new objects of \<open>analyzeEventCTH\<close>, after the store it was called with.\<close>

lemma st_copy_period_eq:
  "st_copy_period init p st =
     (length st + 1,
      st @ [IndicatorsObj (st_read_indicator init st p), PhaseObj (Some (length st)) Undefined])"
  by (simp add: st_copy_period_def alloc_def)

lemma st_new_temporalData_shape:
  "\<exists>objs phases.
     st_new_temporalData init st = (length st + 10, st @ objs @ [DataObj phases])
   \<and> length objs = 10
   \<and> (\<forall>p. \<exists>k < 5. phases p = Some (length st + 2 * k + 1)
            \<and> (\<exists>f. objs ! (2 * k) = IndicatorsObj f)
            \<and> objs ! (2 * k + 1) = PhaseObj (Some (length st + 2 * k)) Undefined)"
proof -
  define i1 where "i1 = IndicatorsObj (st_read_indicator init st before)"
  define st1 where "st1 = st @ [i1, PhaseObj (Some (length st)) Undefined]"
  define i2 where "i2 = IndicatorsObj (st_read_indicator init st1 prelude)"
  define st2 where "st2 = st1 @ [i2, PhaseObj (Some (length st + 2)) Undefined]"
  define i3 where "i3 = IndicatorsObj (st_read_indicator init st2 during)"
  define st3 where "st3 = st2 @ [i3, PhaseObj (Some (length st + 4)) Undefined]"
  define i4 where "i4 = IndicatorsObj (st_read_indicator init st3 transition)"
  define st4 where "st4 = st3 @ [i4, PhaseObj (Some (length st + 6)) Undefined]"
  define i5 where "i5 = IndicatorsObj (st_read_indicator init st4 after)"
  define objs where "objs =
    [i1, PhaseObj (Some (length st)) Undefined, i2, PhaseObj (Some (length st + 2)) Undefined,
     i3, PhaseObj (Some (length st + 4)) Undefined, i4, PhaseObj (Some (length st + 6)) Undefined,
     i5, PhaseObj (Some (length st + 8)) Undefined]"
  define phases where "phases = (\<lambda>period. Some (case period of
                   before \<Rightarrow> length st + 1
                 | prelude \<Rightarrow> length st + 3
                 | during \<Rightarrow> length st + 5
                 | transition \<Rightarrow> length st + 7
                 | after \<Rightarrow> length st + 9))"
  have c1: "st_copy_period init before st = (length st + 1, st1)"
    by (simp add: st_copy_period_eq st1_def i1_def)
  have c2: "st_copy_period init prelude st1 = (length st + 3, st2)"
    by (simp add: st_copy_period_eq st2_def i2_def) (simp add: st1_def)
  have c3: "st_copy_period init during st2 = (length st + 5, st3)"
    by (simp add: st_copy_period_eq st3_def i3_def) (simp add: st2_def st1_def)
  have c4: "st_copy_period init transition st3 = (length st + 7, st4)"
    by (simp add: st_copy_period_eq st4_def i4_def) (simp add: st3_def st2_def st1_def)
  have c5: "st_copy_period init after st4 = (length st + 9, st @ objs)"
    by (simp add: st_copy_period_eq) (simp add: objs_def i5_def st4_def st3_def st2_def st1_def)
  have "st_new_temporalData init st = (length st + 10, st @ objs @ [DataObj phases])"
    unfolding st_new_temporalData_def c1 c2 c3 c4 c5 Let_def prod.case
    by (simp add: alloc_def phases_def objs_def)
  moreover have "length objs = 10" by (simp add: objs_def)
  moreover have "\<exists>k < 5. phases p = Some (length st + 2 * k + 1)
            \<and> (\<exists>f. objs ! (2 * k) = IndicatorsObj f)
            \<and> objs ! (2 * k + 1) = PhaseObj (Some (length st + 2 * k)) Undefined" for p
  proof (cases p)
    case before
    then show ?thesis by (intro exI[of _ 0]) (simp add: phases_def objs_def i1_def)
  next
    case prelude
    then show ?thesis by (intro exI[of _ 1]) (simp add: phases_def objs_def i2_def)
  next
    case during
    then show ?thesis by (intro exI[of _ 2]) (simp add: phases_def objs_def i3_def)
  next
    case transition
    then show ?thesis by (intro exI[of _ 3]) (simp add: phases_def objs_def i4_def)
  next
    case after
    then show ?thesis by (intro exI[of _ 4]) (simp add: phases_def objs_def i5_def)
  qed
  ultimately show ?thesis by blast
qed

lemma new_temporalData_refs:
  assumes "st_new_temporalData init st = (d, st6)"
  shows "d = length st + 10" and "\<exists>objs. st6 = st @ objs"
    and "\<exists>k < 5. phase_ref st6 d p = Some (length st + 2 * k + 1)
           \<and> indicators_ref st6 d p = Some (length st + 2 * k)"
proof -
  obtain objs phases where new: "st_new_temporalData init st = (length st + 10, st @ objs @ [DataObj phases])"
    and len: "length objs = 10"
    and ph: "\<And>p. \<exists>k < 5. phases p = Some (length st + 2 * k + 1)
            \<and> (\<exists>f. objs ! (2 * k) = IndicatorsObj f)
            \<and> objs ! (2 * k + 1) = PhaseObj (Some (length st + 2 * k)) Undefined"
    using st_new_temporalData_shape[of init st] by blast
  from assms new have d: "d = length st + 10" and st6: "st6 = st @ objs @ [DataObj phases]"
    by simp_all
  show "d = length st + 10" by (rule d)
  show "\<exists>objs. st6 = st @ objs" using st6 by blast
  have root: "lookup st6 d = Some (DataObj phases)"
    unfolding d st6 lookup_append_right using len by (simp add: lookup_def nth_append)
  from ph[of p] obtain k where k: "k < 5" "phases p = Some (length st + 2 * k + 1)"
    "objs ! (2 * k + 1) = PhaseObj (Some (length st + 2 * k)) Undefined"
    by blast
  have ref: "phase_ref st6 d p = Some (length st + 2 * k + 1)"
    using root k(2) by (simp add: phase_ref_def)
  have "lookup st6 (length st + (2 * k + 1)) = Some (PhaseObj (Some (length st + 2 * k)) Undefined)"
    unfolding st6 lookup_append_right using len k(1,3) by (simp add: lookup_def nth_append)
  then have "indicators_ref st6 d p = Some (length st + 2 * k)"
    using ref by (simp add: indicators_ref_def add.assoc)
  with ref k(1) show "\<exists>k < 5. phase_ref st6 d p = Some (length st + 2 * k + 1)
           \<and> indicators_ref st6 d p = Some (length st + 2 * k)"
    by blast
qed

lemma ensure_period_present:
  assumes "phase_ref st d p = Some pa" and "indicators_ref st d p = Some ia"
  shows "st_ensure_period d p st = st"
proof -
  have "st_ensure_phase d p st = st"
    using assms(1) by (auto simp: st_ensure_phase_def phase_ref_def split: option.splits obj.splits)
  moreover have "st_ensure_indicators d p st = st"
    using assms by (auto simp: st_ensure_indicators_def indicators_ref_def split: option.splits obj.splits)
  ultimately show ?thesis by (simp add: st_ensure_period_def)
qed

lemma st_analyzeEventCTH_null:
  assumes "\<not> valid_number s \<or> \<not> valid_number e \<or> js_gt s e \<or> not_an_object arg"
  shows "st_analyzeEventCTH s e arg st = (Inr None, st)"
  using assms by (cases arg) (auto simp: st_analyzeEventCTH_def)

lemma st_analyzeEventCTH_object:
  assumes "valid_number s" "valid_number e" "\<not> js_gt s e"
    and new: "st_new_temporalData init st = (d, st6)"
  shows "st_analyzeEventCTH s e (ArgObject init) st
           = (Inr (Some d), complete_steps (store_access d) s e st6)"
proof -
  have "fold (st_ensure_period d) periods st6 = st6"
  proof (rule fold_unchanged)
    fix p
    from new_temporalData_refs(3)[OF new, of p]
    show "st_ensure_period d p st6 = st6" by (auto intro: ensure_period_present)
  qed
  with assms show ?thesis
    by (simp add: st_analyzeEventCTH_def st_completeAndInferHistoricalData_def)
qed

lemma st_analyzeEventCTH_cases:
  "st_analyzeEventCTH s e arg st = (Inr None, st) \<or>
   (\<exists>init d st6. arg = ArgObject init \<and> st_new_temporalData init st = (d, st6)
      \<and> st_analyzeEventCTH s e arg st = (Inr (Some d), complete_steps (store_access d) s e st6))"
proof (cases "\<not> valid_number s \<or> \<not> valid_number e \<or> js_gt s e \<or> not_an_object arg")
  case True
  then show ?thesis by (simp add: st_analyzeEventCTH_null)
next
  case False
  then obtain init where arg: "arg = ArgObject init" by (cases arg) simp_all
  obtain d st6 where new: "st_new_temporalData init st = (d, st6)"
    by (cases "st_new_temporalData init st")
  from False new show ?thesis
    unfolding arg by (simp add: st_analyzeEventCTH_object)
qed

text \<open>
  Claim C10: \<open>analyzeEventCTH\<close> leaves the caller's data as it was. Whatever the
  arguments, every object that is in the store when the function is called is
  unchanged when it returns; and when the function returns an object, that object, its
  period objects and their \<open>indicators\<close> objects are all new, so the assignments of
  the pipeline, which go to these objects, reach no object of the caller.
\<close>

theorem caller_data_unchanged:
  assumes "st_analyzeEventCTH s e arg st = (r, st')"
  shows "length st \<le> length st'
       \<and> take (length st) st' = st
       \<and> (\<forall>a. a < length st \<longrightarrow> lookup st' a = lookup st a)
       \<and> (\<forall>d. r = Inr (Some d) \<longrightarrow> length st \<le> d \<and> refers_from (length st) st' d)"
proof -
  have "length st \<le> length st' \<and> take (length st) st' = st
       \<and> (\<forall>d. r = Inr (Some d) \<longrightarrow> length st \<le> d \<and> refers_from (length st) st' d)"
    using st_analyzeEventCTH_cases[of s e arg st]
  proof (elim disjE exE conjE)
    assume "st_analyzeEventCTH s e arg st = (Inr None, st)"
    with assms have "r = Inr None" "st' = st" by simp_all
    then show ?thesis by simp
  next
    fix init d st6
    assume new: "st_new_temporalData init st = (d, st6)"
      and run: "st_analyzeEventCTH s e arg st = (Inr (Some d), complete_steps (store_access d) s e st6)"
    from run assms have r: "r = Inr (Some d)" and st': "st' = complete_steps (store_access d) s e st6"
      by simp_all
    obtain objs where st6: "st6 = st @ objs"
      using new_temporalData_refs(2)[OF new] by blast
    have fresh: "refers_from (length st) st6 d"
      unfolding refers_from_def
    proof (intro conjI allI impI)
      fix p pa assume "phase_ref st6 d p = Some pa"
      with new_temporalData_refs(3)[OF new, of p] show "length st \<le> pa" by auto
    next
      fix p ia assume "indicators_ref st6 d p = Some ia"
      with new_temporalData_refs(3)[OF new, of p] show "length st \<le> ia" by auto
    qed
    from complete_steps_frame[OF fresh, of s e]
    have "refers_from (length st) st' d" "take (length st) st' = take (length st) st6"
      "length st' = length st6"
      unfolding st' by simp_all
    then show ?thesis
      using new_temporalData_refs(1)[OF new] by (simp add: r st6)
  qed
  moreover have "lookup st' a = lookup st a" if "a < length st" "length st \<le> length st'"
    "take (length st) st' = st" for a
  proof -
    have "st' ! a = take (length st) st' ! a" using that(1) by simp
    then show ?thesis using that by (simp add: lookup_def)
  qed
  ultimately show ?thesis by blast
qed

text \<open>
  The caller's data at address 2 of a store of three objects: after the call with the
  years 1789 and 1799 the three objects are as before, and the result is a new object
  at address 13, after five new \<open>indicators\<close> objects and five new period objects.
\<close>

theorem caller_data_unchanged_witness:
  "length example_store = 3
   \<and> take 3 (snd (st_analyzeEventCTH (Number 1789) (Number 1799) (ArgObject 2) example_store))
       = example_store
   \<and> lookup (snd (st_analyzeEventCTH (Number 1789) (Number 1799) (ArgObject 2) example_store)) 0
       = Some (IndicatorsObj example_during)
   \<and> fst (st_analyzeEventCTH (Number 1789) (Number 1799) (ArgObject 2) example_store)
       = Inr (Some 13)"
proof -
  let ?run = "st_analyzeEventCTH (Number 1789) (Number 1799) (ArgObject 2) example_store"
  have len: "length example_store = 3" by (simp add: example_store_def)
  have frame: "take (length example_store) (snd ?run) = example_store"
    "\<forall>a. a < length example_store \<longrightarrow> lookup (snd ?run) a = lookup example_store a"
    using caller_data_unchanged[of "Number 1789" "Number 1799" "ArgObject 2" example_store
        "fst ?run" "snd ?run"]
    by simp_all
  then have "lookup (snd ?run) 0 = lookup example_store 0"
    using len by simp
  then have zero: "lookup (snd ?run) 0 = Some (IndicatorsObj example_during)"
    by (simp add: lookup_def example_store_def)
  obtain d st6 where new: "st_new_temporalData 2 example_store = (d, st6)"
    by (cases "st_new_temporalData 2 example_store")
  have "d = 13"
    using new_temporalData_refs(1)[OF new] len by simp
  moreover have "?run = (Inr (Some d), complete_steps (store_access d) (Number 1789) (Number 1799) st6)"
    using new by (intro st_analyzeEventCTH_object) (simp_all add: js_gt_def)
  ultimately have "fst ?run = Inr (Some 13)" by simp
  with frame(1) zero len show ?thesis by simp
qed

section \<open>The two representations agree\<close>

lemma fold_related:
  assumes "\<And>x a b. R a b \<Longrightarrow> R (f x a) (g x b)" and "R a b"
  shows "R (fold f xs a) (fold g xs b)"
  using assms(2) by (induction xs arbitrary: a b) (simp_all add: assms(1))

text \<open>
  Two representations whose reads agree and whose assignments correspond go through
  the five steps in step.
\<close>

lemma complete_steps_related:
  fixes A :: "'s access" and B :: "'t access"
  assumes ri: "\<And>a b p. R a b \<Longrightarrow> read_indicator A a p = read_indicator B b p"
    and rc: "\<And>a b p. R a b \<Longrightarrow> read_cth A a p = read_cth B b p"
    and wi: "\<And>a b p n v. R a b \<Longrightarrow> R (write_indicator A p n v a) (write_indicator B p n v b)"
    and wc: "\<And>a b p v. R a b \<Longrightarrow> R (write_cth A p v a) (write_cth B p v b)"
    and start: "R a b"
  shows "R (complete_steps A s e a) (complete_steps B s e b)"
proof -
  have fill_ind: "R (fill_indicator A ep p n a) (fill_indicator B ep p n b)"
    if "R a b" for ep p n a b
    using that ri[OF that, of p] by (simp add: fill_indicator_def wi)
  have fill_per: "R (fill_period A s e p a) (fill_period B s e p b)" if "R a b" for p a b
    unfolding fill_period_def Let_def
    using fill_ind that by (rule fold_related[where R = R])
  have fill: "R (fill_from_epochs A s e a) (fill_from_epochs B s e b)" if "R a b" for a b
    unfolding fill_from_epochs_def
    using fill_per that by (rule fold_related[where R = R])
  have score_per: "R (score_period A p a) (score_period B p b)" if "R a b" for p a b
    using that ri[OF that, of p] by (simp add: score_period_def wc)
  have score: "R (recalculate_cth A a) (recalculate_cth B b)" if "R a b" for a b
    unfolding recalculate_cth_def
    using score_per that by (rule fold_related[where R = R])
  have deltas: "prepare_deltaCTHs A a = prepare_deltaCTHs B b" if "R a b" for a b
  proof -
    have "delta_entry A a = delta_entry B b"
      using rc[OF that] by (simp add: delta_entry_def fun_eq_iff Let_def cong: if_cong)
    then show ?thesis by (simp add: prepare_deltaCTHs_def)
  qed
  have infer_ind: "R (infer_indicator A ds i n a) (infer_indicator B ds i n b)"
    if "R a b" for ds i n a b
  proof -
    have "adjacent_data A a q n = adjacent_data B b q n" for q
      using ri[OF that] by (simp add: adjacent_data_def split: option.splits)
    then show ?thesis
      using that ri[OF that, of "periods ! i"] by (simp add: infer_indicator_def Let_def wi)
  qed
  have infer_per: "R (infer_period A ds i a) (infer_period B ds i b)" if "R a b" for ds i a b
    unfolding infer_period_def
    using infer_ind that by (rule fold_related[where R = R])
  have infer_pass: "R (infer_pass A ds k a) (infer_pass B ds k b)" if "R a b" for ds k a b
    unfolding infer_pass_def
    using infer_per that by (rule fold_related[where R = R])
  have infer: "R (infer_missing A ds a) (infer_missing B ds b)" if "R a b" for ds a b
    unfolding infer_missing_def
    using infer_pass that by (rule fold_related[where R = R])
  have lim_ind: "R (limit_indicator A p n a) (limit_indicator B p n b)" if "R a b" for p n a b
    using that ri[OF that, of p] by (simp add: limit_indicator_def wi)
  have lim_per: "R (limit_period A p a) (limit_period B p b)" if "R a b" for p a b
    unfolding limit_period_def
    using lim_ind that by (rule fold_related[where R = R])
  have lim: "R (limit_all A a) (limit_all B b)" if "R a b" for a b
    unfolding limit_all_def
    using lim_per that by (rule fold_related[where R = R])
  have two: "R (recalculate_cth A (fill_from_epochs A s e a))
               (recalculate_cth B (fill_from_epochs B s e b))"
    by (rule score, rule fill, rule start)
  show ?thesis
    unfolding complete_steps_def Let_def deltas[OF two]
    by (rule score, rule lim, rule infer, rule two)
qed

text \<open>Reads after an assignment, in a store that is laid out.\<close>

lemma laid_outD:
  assumes "laid_out pa ia d st"
  shows "phase_ref st d p = Some (pa p)" and "indicators_ref st d p = Some (ia p)"
    and "\<exists>c. lookup st (pa p) = Some (PhaseObj (Some (ia p)) c)"
    and "\<exists>f. lookup st (ia p) = Some (IndicatorsObj f)"
    and "ia p < length st" and "pa p < length st"
proof -
  from assms have a: "phase_ref st d p = Some (pa p)" "indicators_ref st d p = Some (ia p)"
    and b: "\<exists>f. lookup st (ia p) = Some (IndicatorsObj f)"
    by (simp_all add: laid_out_def)
  from a show c: "\<exists>c. lookup st (pa p) = Some (PhaseObj (Some (ia p)) c)"
    by (auto simp: indicators_ref_def split: option.splits obj.splits)
  from a b show "phase_ref st d p = Some (pa p)" "indicators_ref st d p = Some (ia p)"
    "\<exists>f. lookup st (ia p) = Some (IndicatorsObj f)" by simp_all
  from b show "ia p < length st" by (auto simp: lookup_def split: if_splits)
  from c show "pa p < length st" by (auto simp: lookup_def split: if_splits)
qed

lemma laid_out_write_indicator:
  assumes lo: "laid_out pa ia d st" and inj: "inj ia"
  shows "laid_out pa ia d (st_write_indicator d p n v st)"
    and "st_result (st_write_indicator d p n v st) d
           = write_indicator value_access p n v (st_result st d)"
proof -
  obtain f where f: "lookup st (ia p) = Some (IndicatorsObj f)"
    using laid_outD(4)[OF lo, of p] by blast
  let ?st' = "st[ia p := IndicatorsObj (f(n := v))]"
  have w: "st_write_indicator d p n v st = ?st'"
    using laid_outD(2)[OF lo, of p] f by (simp add: st_write_indicator_def)
  have refs: "phase_ref ?st' d q = Some (pa q)" "indicators_ref ?st' d q = Some (ia q)" for q
    using refs_write_indicator[of d p n v st d q] laid_outD(1,2)[OF lo, of q]
    unfolding w by simp_all
  have inds: "lookup ?st' (ia q) =
      (if q = p then Some (IndicatorsObj (f(n := v))) else lookup st (ia q))" for q
    using laid_outD(5)[OF lo, of p] inj by (auto simp: lookup_update inj_eq)
  have phs: "lookup ?st' (pa q) = lookup st (pa q)" for q
    using laid_outD(3)[OF lo, of q] f by (auto simp: lookup_update)
  show "laid_out pa ia d (st_write_indicator d p n v st)"
    unfolding w laid_out_def using refs inds laid_outD(4)[OF lo] by simp
  have "st_read_indicator d ?st' q = (if q = p then (st_read_indicator d st p)(n := v)
                                      else st_read_indicator d st q)" for q
    using laid_outD(2)[OF lo] f
    by (auto simp: st_read_indicator_def refs inds fun_eq_iff)
  moreover have "st_read_cth d ?st' q = st_read_cth d st q" for q
    using laid_outD(1)[OF lo] by (simp add: st_read_cth_def refs phs)
  ultimately show "st_result (st_write_indicator d p n v st) d
           = write_indicator value_access p n v (st_result st d)"
    unfolding w by (auto simp: st_result_def value_access_simps fun_eq_iff)
qed

lemma laid_out_write_cth:
  assumes lo: "laid_out pa ia d st" and inj: "inj pa"
  shows "laid_out pa ia d (st_write_cth d p v st)"
    and "st_result (st_write_cth d p v st) d = write_cth value_access p v (st_result st d)"
proof -
  obtain c where c: "lookup st (pa p) = Some (PhaseObj (Some (ia p)) c)"
    using laid_outD(3)[OF lo, of p] by blast
  let ?st' = "st[pa p := PhaseObj (Some (ia p)) v]"
  have w: "st_write_cth d p v st = ?st'"
    using laid_outD(1)[OF lo, of p] c by (simp add: st_write_cth_def)
  have refs: "phase_ref ?st' d q = Some (pa q)" "indicators_ref ?st' d q = Some (ia q)" for q
    using refs_write_cth[of d p v st d q] laid_outD(1,2)[OF lo, of q]
    unfolding w by simp_all
  have phs: "lookup ?st' (pa q) =
      (if q = p then Some (PhaseObj (Some (ia p)) v) else lookup st (pa q))" for q
    using laid_outD(6)[OF lo, of p] inj by (auto simp: lookup_update inj_eq)
  have inds: "lookup ?st' (ia q) = lookup st (ia q)" for q
    using laid_outD(4)[OF lo, of q] c by (auto simp: lookup_update)
  show "laid_out pa ia d (st_write_cth d p v st)"
    unfolding w laid_out_def using refs inds laid_outD(4)[OF lo] by simp
  have "st_read_cth d ?st' q = (if q = p then v else st_read_cth d st q)" for q
    using laid_outD(1)[OF lo]
    by (auto simp: st_read_cth_def refs phs)
  moreover have "st_read_indicator d ?st' q = st_read_indicator d st q" for q
    using laid_outD(2)[OF lo] by (simp add: st_read_indicator_def refs inds fun_eq_iff)
  ultimately show "st_result (st_write_cth d p v st) d
           = write_cth value_access p v (st_result st d)"
    unfolding w by (auto simp: st_result_def value_access_simps fun_eq_iff)
qed

text \<open>The five steps in a store that is laid out are the five steps on the value.\<close>

lemma complete_steps_store:
  assumes "laid_out pa ia d st" and "inj pa" and "inj ia"
  shows "laid_out pa ia d (complete_steps (store_access d) s e st)"
    and "st_result (complete_steps (store_access d) s e st) d
           = complete_steps value_access s e (st_result st d)"
proof -
  let ?R = "\<lambda>st td. laid_out pa ia d st \<and> st_result st d = td"
  have "?R (complete_steps (store_access d) s e st) (complete_steps value_access s e (st_result st d))"
  proof (rule complete_steps_related[where R = ?R])
    fix a b p assume "?R a b"
    then show "read_indicator (store_access d) a p = read_indicator value_access b p"
      by (auto simp: store_access_def value_access_simps st_result_def)
  next
    fix a b p assume "?R a b"
    then show "read_cth (store_access d) a p = read_cth value_access b p"
      by (auto simp: store_access_def value_access_def st_result_def)
  next
    fix a b p n v assume "?R a b"
    then show "?R (write_indicator (store_access d) p n v a) (write_indicator value_access p n v b)"
      using laid_out_write_indicator[OF _ assms(3), of pa d a p n v]
      by (simp add: store_access_def)
  next
    fix a b p v assume "?R a b"
    then show "?R (write_cth (store_access d) p v a) (write_cth value_access p v b)"
      using laid_out_write_cth[OF _ assms(2), of ia d a p v]
      by (simp add: store_access_def)
  next
    show "?R st (st_result st d)" using assms(1) by simp
  qed
  then show "laid_out pa ia d (complete_steps (store_access d) s e st)"
    and "st_result (complete_steps (store_access d) s e st) d
           = complete_steps value_access s e (st_result st d)"
    by simp_all
qed

text \<open>
  In a store without dangling references, new objects do not change what is read from
  an object that was there before.
\<close>

lemma read_extended:
  assumes "no_dangling st" and "init < length st"
  shows "st_read_indicator init (st @ xs) p = st_read_indicator init st p"
proof -
  have root: "lookup (st @ xs) init = lookup st init"
    using assms(2) by (rule lookup_append_left)
  then have ph: "phase_ref (st @ xs) init p = phase_ref st init p"
    by (simp add: phase_ref_def)
  have "lookup (st @ xs) pa = lookup st pa" if "phase_ref st init p = Some pa" for pa
  proof -
    from that obtain phases where "lookup st init = Some (DataObj phases)" "phases p = Some pa"
      by (auto simp: phase_ref_def split: option.splits obj.splits)
    with assms(1) have "pa < length st" unfolding no_dangling_def by blast
    then show ?thesis by (rule lookup_append_left)
  qed
  with ph have ir: "indicators_ref (st @ xs) init p = indicators_ref st init p"
    by (simp add: indicators_ref_def split: option.splits)
  have "lookup (st @ xs) ia = lookup st ia" if "indicators_ref st init p = Some ia" for ia
  proof -
    from that obtain pa c where "lookup st pa = Some (PhaseObj (Some ia) c)"
      by (auto simp: indicators_ref_def split: option.splits obj.splits)
    with assms(1) have "ia < length st" unfolding no_dangling_def by blast
    then show ?thesis by (rule lookup_append_left)
  qed
  with ir show ?thesis
    by (simp add: st_read_indicator_def fun_eq_iff split: option.splits)
qed

text \<open>The layout of the new objects.\<close>

lemma st_new_temporalData_closed:
  assumes "no_dangling st" and "init < length st"
  shows "st_new_temporalData init st =
    (length st + 10,
     st @ [IndicatorsObj (st_read_indicator init st before),
           PhaseObj (Some (length st)) Undefined,
           IndicatorsObj (st_read_indicator init st prelude),
           PhaseObj (Some (length st + 2)) Undefined,
           IndicatorsObj (st_read_indicator init st during),
           PhaseObj (Some (length st + 4)) Undefined,
           IndicatorsObj (st_read_indicator init st transition),
           PhaseObj (Some (length st + 6)) Undefined,
           IndicatorsObj (st_read_indicator init st after),
           PhaseObj (Some (length st + 8)) Undefined,
           DataObj (\<lambda>period. Some (case period of
                   before \<Rightarrow> length st + 1
                 | prelude \<Rightarrow> length st + 3
                 | during \<Rightarrow> length st + 5
                 | transition \<Rightarrow> length st + 7
                 | after \<Rightarrow> length st + 9))])"
proof -
  note rd = read_extended[OF assms]
  define st1 where "st1 = st @ [IndicatorsObj (st_read_indicator init st before),
    PhaseObj (Some (length st)) Undefined]"
  define st2 where "st2 = st1 @ [IndicatorsObj (st_read_indicator init st prelude),
    PhaseObj (Some (length st + 2)) Undefined]"
  define st3 where "st3 = st2 @ [IndicatorsObj (st_read_indicator init st during),
    PhaseObj (Some (length st + 4)) Undefined]"
  define st4 where "st4 = st3 @ [IndicatorsObj (st_read_indicator init st transition),
    PhaseObj (Some (length st + 6)) Undefined]"
  define st5 where "st5 = st4 @ [IndicatorsObj (st_read_indicator init st after),
    PhaseObj (Some (length st + 8)) Undefined]"
  have c1: "st_copy_period init before st = (length st + 1, st1)"
    by (simp add: st_copy_period_eq st1_def)
  have c2: "st_copy_period init prelude st1 = (length st + 3, st2)"
    unfolding st_copy_period_eq by (simp add: st2_def) (simp add: st1_def rd)
  have c3: "st_copy_period init during st2 = (length st + 5, st3)"
    unfolding st_copy_period_eq by (simp add: st3_def) (simp add: st2_def st1_def rd)
  have c4: "st_copy_period init transition st3 = (length st + 7, st4)"
    unfolding st_copy_period_eq by (simp add: st4_def) (simp add: st3_def st2_def st1_def rd)
  have c5: "st_copy_period init after st4 = (length st + 9, st5)"
    unfolding st_copy_period_eq
    by (simp add: st5_def) (simp add: st4_def st3_def st2_def st1_def rd)
  show ?thesis
    unfolding st_new_temporalData_def c1 c2 c3 c4 c5 Let_def prod.case
    by (simp add: alloc_def st5_def st4_def st3_def st2_def st1_def)
qed

lemma new_temporalData_laid_out:
  assumes "no_dangling st" and "init < length st"
    and new: "st_new_temporalData init st = (d, st6)"
  shows "\<exists>pa ia. inj pa \<and> inj ia \<and> laid_out pa ia d st6"
    and "st_result st6 d = ensure_periods (\<lambda>period. Some (copy_period (st_data st init) period))"
proof -
  let ?pa = "\<lambda>period. length st + (case period of before \<Rightarrow> 1 | prelude \<Rightarrow> 3
                 | during \<Rightarrow> 5 | transition \<Rightarrow> 7 | after \<Rightarrow> (9::nat))"
  let ?ia = "\<lambda>period. length st + (case period of before \<Rightarrow> 0 | prelude \<Rightarrow> 2
                 | during \<Rightarrow> 4 | transition \<Rightarrow> 6 | after \<Rightarrow> (8::nat))"
  from new st_new_temporalData_closed[OF assms(1,2)]
  have d: "d = length st + 10" and st6: "st6 =
     st @ [IndicatorsObj (st_read_indicator init st before),
           PhaseObj (Some (length st)) Undefined,
           IndicatorsObj (st_read_indicator init st prelude),
           PhaseObj (Some (length st + 2)) Undefined,
           IndicatorsObj (st_read_indicator init st during),
           PhaseObj (Some (length st + 4)) Undefined,
           IndicatorsObj (st_read_indicator init st transition),
           PhaseObj (Some (length st + 6)) Undefined,
           IndicatorsObj (st_read_indicator init st after),
           PhaseObj (Some (length st + 8)) Undefined,
           DataObj (\<lambda>period. Some (case period of
                   before \<Rightarrow> length st + 1
                 | prelude \<Rightarrow> length st + 3
                 | during \<Rightarrow> length st + 5
                 | transition \<Rightarrow> length st + 7
                 | after \<Rightarrow> length st + 9))]"
    by simp_all
  have io: "lookup st6 (?ia p) = Some (IndicatorsObj (st_read_indicator init st p))" for p
    unfolding st6 by (cases p) (simp_all add: lookup_def nth_append)
  have po: "lookup st6 (?pa p) = Some (PhaseObj (Some (?ia p)) Undefined)" for p
    unfolding st6 by (cases p) (simp_all add: lookup_def nth_append)
  have "lookup st6 d = Some (DataObj (\<lambda>period. Some (?pa period)))"
    unfolding st6 d by (simp add: lookup_def nth_append fun_eq_iff split: period.splits)
  then have ph: "phase_ref st6 d p = Some (?pa p)" for p
    by (simp add: phase_ref_def)
  have ir: "indicators_ref st6 d p = Some (?ia p)" for p
    by (simp add: indicators_ref_def ph po)
  have "inj ?pa" "inj ?ia"
    by (auto simp: inj_def split: period.splits)
  moreover have "laid_out ?pa ?ia d st6"
    unfolding laid_out_def using ph ir io by blast
  ultimately show "\<exists>pa ia. inj pa \<and> inj ia \<and> laid_out pa ia d st6" by blast
  have "st_read_indicator d st6 p = st_read_indicator init st p" for p
    by (simp add: st_read_indicator_def ir io fun_eq_iff)
  moreover have "st_read_cth d st6 p = Undefined" for p
    by (simp add: st_read_cth_def ph po)
  ultimately show "st_result st6 d
      = ensure_periods (\<lambda>period. Some (copy_period (st_data st init) period))"
    by (simp add: st_result_def ensure_periods_def ensure_period_def copy_period_def
        st_data_def fun_eq_iff)
qed

text \<open>
  \<open>analyzeEventCTH\<close> in the store returns \<open>null\<close> where \<open>analyzeEventCTH\<close> on the value
  does, and otherwise the new object holds the value that the latter returns.
\<close>

lemma store_agrees_with_value:
  assumes "no_dangling st" and "init < length st"
    and run: "st_analyzeEventCTH s e (ArgObject init) st = (r, st')"
  shows "analyzeEventCTH s e (ArgObject (st_data st init)) =
           (case r of
              Inr (Some d) \<Rightarrow> Inr (Some (st_result st' d))
            | Inr None \<Rightarrow> Inr None
            | Inl err \<Rightarrow> Inl err)"
proof (cases "\<not> valid_number s \<or> \<not> valid_number e \<or> js_gt s e")
  case True
  then have "st_analyzeEventCTH s e (ArgObject init) st = (Inr None, st)"
    by (intro st_analyzeEventCTH_null) blast
  with run have "r = Inr None" by simp
  moreover have "analyzeEventCTH s e (ArgObject (st_data st init)) = Inr None"
    using True by (auto simp: analyzeEventCTH_def)
  ultimately show ?thesis by simp
next
  case False
  obtain d st6 where new: "st_new_temporalData init st = (d, st6)"
    by (cases "st_new_temporalData init st")
  from False new have "st_analyzeEventCTH s e (ArgObject init) st
           = (Inr (Some d), complete_steps (store_access d) s e st6)"
    by (intro st_analyzeEventCTH_object) simp_all
  with run have r: "r = Inr (Some d)" and st': "st' = complete_steps (store_access d) s e st6"
    by simp_all
  obtain pa ia where lo: "inj pa" "inj ia" "laid_out pa ia d st6"
    using new_temporalData_laid_out(1)[OF assms(1,2) new] by blast
  have "st_result st' d = complete_steps value_access s e (st_result st6 d)"
    unfolding st' by (rule complete_steps_store(2)[OF lo(3) lo(1) lo(2)])
  also have "\<dots> = complete_steps value_access s e
      (ensure_periods (\<lambda>period. Some (copy_period (st_data st init) period)))"
    by (simp add: new_temporalData_laid_out(2)[OF assms(1,2) new])
  finally show ?thesis
    using False by (simp add: r analyzeEventCTH_def completeAndInferHistoricalData_def)
qed

end
